theory Spec2Isabelle
  imports Complex_Main
begin

section \<open>Actuator-disk wind turbines and the wind farm of MicroHH\<close>

text \<open>
  The development embeds \<^verbatim>\<open>Turbine<TF>\<close> (turbine.cxx) and \<^verbatim>\<open>Windfarm<TF>\<close>
  (windfarm.cxx). The floating-point type \<^verbatim>\<open>TF\<close> and \<^verbatim>\<open>double\<close> are read as
  \<^typ>\<open>real\<close>: every operation is the exact one, there is no rounding, overflow or NaN.
  The one floating-point effect that is kept is the underflow of \<^verbatim>\<open>std::exp\<close> to zero, on
  which the normalisation of the weights in \<^verbatim>\<open>Turbine::create\<close> depends.
  The C++ \<^verbatim>\<open>int\<close> is read as \<^typ>\<open>int\<close> (no overflow of a flattened index).
  A \<^verbatim>\<open>std::vector\<close> that is only indexed (the coordinate arrays of the grid, the
  field arrays \<^verbatim>\<open>u\<close> and \<^verbatim>\<open>v\<close>) is a store from the index to the value; an index
  outside the allocation is undefined behaviour in C++ and is not modelled. The vectors
  that grow by \<^verbatim>\<open>push_back\<close> (indices, weights, turbines) are lists.

  Names are those of the source, except where they would clash: the grid's \<^verbatim>\<open>x\<close>,
  \<^verbatim>\<open>y\<close>, \<^verbatim>\<open>z\<close>, \<^verbatim>\<open>dx\<close> are \<open>gd_x\<close>, \<open>gd_y\<close>, \<open>gd_z\<close>, \<open>gd_dx\<close>; the turbine's
  \<^verbatim>\<open>power\<close> is \<open>power_t\<close>; the farm's \<^verbatim>\<open>diam\<close> is \<open>farm_diam\<close>; the members
  \<^verbatim>\<open>Turbine::create\<close>, \<^verbatim>\<open>Turbine::exec\<close>, \<^verbatim>\<open>Windfarm::create\<close>, \<^verbatim>\<open>Windfarm::exec\<close>
  are \<open>Turbine_create\<close>, \<open>Turbine_exec\<close>, \<open>Windfarm_create\<close>, \<open>Windfarm_exec\<close>.
\<close>

subsection \<open>Data\<close>

type_synonym fld = "int \<Rightarrow> real"

text \<open>The part of \<^verbatim>\<open>Grid_data\<close> that the two classes read.\<close>

record grid_data =
  gd_x :: "int \<Rightarrow> real"
  gd_y :: "int \<Rightarrow> real"
  gd_z :: "int \<Rightarrow> real"
  gd_dx :: real
  xsize :: real
  ysize :: real
  istart :: int
  iend :: int
  jstart :: int
  jend :: int
  kstart :: int
  kend :: int
  jstride :: int
  kstride :: int

text \<open>
  The items that the constructors fetch with \<^verbatim>\<open>Input::get_item\<close>, after the defaults of
  the call sites have been filled in.
\<close>

record input =
  in_diam :: real
  in_hhub :: real
  in_ct :: real
  in_cp :: real
  in_tsr :: real
  in_swdynyaw :: bool
  in_yawperiod :: real
  in_turbstarttime :: real
  in_swturbstats :: bool
  in_turbstatperiod :: real
  in_nturbrows :: int
  in_nturbcols :: int
  in_spacingx :: real
  in_spacingy :: real
  in_swstaggered :: bool
  in_farmlocx :: real
  in_farmlocy :: real
  in_layoutfile :: string

record turbine =
  diam :: real
  hhub :: real
  ct :: real
  cp :: real
  tsr :: real
  swdynyaw :: bool
  yawperiod :: real
  turbstarttime :: real
  swturbstats :: bool
  turbstatperiod :: real
  xpos :: real
  ypos :: real
  yaw :: real
  next_yaw :: real
  area :: real
  k_hub :: int
  indices :: "int list"
  weights :: "real list"
  power_t :: real

record windfarm =
  farm_input :: input
  nturbrows :: int
  nturbcols :: int
  spacingx :: real
  spacingy :: real
  swstaggered :: bool
  farmlocx :: real
  farmlocy :: real
  layoutfile :: string
  farm_diam :: real
  farm_power :: real
  turbines :: "turbine list"

datatype error = Runtime_error string

subsection \<open>Turbine\<close>

text \<open>
  \<^verbatim>\<open>Turbine::Turbine\<close>: a positive \<^verbatim>\<open>hhub_in\<close> replaces the configured hub height. The
  constructor does not initialise \<^verbatim>\<open>k_hub\<close>; the model puts 0 there, and
  \<^verbatim>\<open>Turbine::create\<close> assigns it before \<^verbatim>\<open>Windfarm\<close> makes any other use of the object.
\<close>

definition Turbine_ctor :: "input \<Rightarrow> real \<Rightarrow> real \<Rightarrow> real \<Rightarrow> turbine" where
  "Turbine_ctor inp xin yin hhub_in =
     \<lparr> diam = in_diam inp,
       hhub = (if hhub_in > 0 then hhub_in else in_hhub inp),
       ct = in_ct inp,
       cp = in_cp inp,
       tsr = in_tsr inp,
       swdynyaw = in_swdynyaw inp,
       yawperiod = in_yawperiod inp,
       turbstarttime = in_turbstarttime inp,
       swturbstats = in_swturbstats inp,
       turbstatperiod = in_turbstatperiod inp,
       xpos = xin,
       ypos = yin,
       yaw = 0,
       next_yaw = in_turbstarttime inp,
       area = pi * in_diam inp * in_diam inp * 0.25,
       k_hub = 0,
       indices = [],
       weights = [],
       power_t = 0 \<rparr>"

definition get_power :: "turbine \<Rightarrow> real" where
  "get_power t = power_t t"

text \<open>
  The scan of \<^verbatim>\<open>Turbine::create\<close> for the level nearest the hub and the lambda
  \<^verbatim>\<open>nearest_index\<close> of \<^verbatim>\<open>Turbine::exec\<close> are the same loop: start from index \<open>s\<close>,
  visit \<open>s+1, ..., e-1\<close>, move to an index only on a strictly smaller distance.
\<close>

definition nearest_step :: "real \<Rightarrow> (int \<Rightarrow> real) \<Rightarrow> int \<Rightarrow> int \<times> real \<Rightarrow> int \<times> real" where
  "nearest_step val arr i st =
     (let d = \<bar>arr i - val\<bar> in if d < snd st then (i, d) else st)"

definition nearest_index :: "real \<Rightarrow> (int \<Rightarrow> real) \<Rightarrow> int \<Rightarrow> int \<Rightarrow> int" where
  "nearest_index val arr s e =
     fst (fold (nearest_step val arr) [s + 1..e - 1] (s, \<bar>arr s - val\<bar>))"

text \<open>
  \<^verbatim>\<open>std::exp\<close>. The least positive \<^verbatim>\<open>double\<close> is \<open>2^-1074\<close>, and \<open>exp x\<close> is below half
  of it as soon as \<open>x < -745.14\<close>: for an argument of \<open>-746\<close> or less the library returns
  zero, for \<^verbatim>\<open>double\<close> and all the more for \<^verbatim>\<open>float\<close>. Above \<open>-746\<close> the model keeps the
  exact value.
\<close>

definition std_exp :: "real \<Rightarrow> real" where
  "std_exp x = (if x \<le> - 746 then 0 else exp x)"

text \<open>
  The double loop of \<^verbatim>\<open>Turbine::create\<close> over \<open>j\<close> (outer) and \<open>i\<close> (inner); the state
  is the pair of vectors, each \<^verbatim>\<open>push_back\<close> appends at the end.
\<close>

definition cell_step ::
  "grid_data \<Rightarrow> turbine \<Rightarrow> int \<Rightarrow> int \<Rightarrow> int \<Rightarrow> int list \<times> real list \<Rightarrow> int list \<times> real list" where
  "cell_step gd t kh j i st =
     (let Delta = 1.5 * gd_dx gd;
          radius = diam t * 0.5;
          dx = gd_x gd i - xpos t;
          dy = gd_y gd j - ypos t;
          r2 = dx * dx + dy * dy
      in if sqrt r2 \<le> radius
         then (fst st @ [i + j * jstride gd + kh * kstride gd],
               snd st @ [std_exp (- 6 * r2 / (Delta * Delta))])
         else st)"

definition disk_cells :: "grid_data \<Rightarrow> turbine \<Rightarrow> int \<Rightarrow> int list \<times> real list" where
  "disk_cells gd t kh =
     fold (\<lambda>j. fold (cell_step gd t kh j) [istart gd..iend gd - 1])
          [jstart gd..jend gd - 1] ([], [])"

definition Turbine_create :: "grid_data \<Rightarrow> turbine \<Rightarrow> turbine" where
  "Turbine_create gd t =
     (let kh = nearest_index (hhub t) (gd_z gd) (kstart gd) (kend gd);
          cells = disk_cells gd t kh;
          wsum = foldl (+) 0 (snd cells)
      in t\<lparr> k_hub := kh,
            indices := fst cells,
            weights := (if wsum > 0 then map (\<lambda>w. w / wsum) (snd cells) else snd cells) \<rparr>)"

text \<open>\<^verbatim>\<open>std::atan2\<close> on reals (no signed zero).\<close>

definition atan2 :: "real \<Rightarrow> real \<Rightarrow> real" where
  "atan2 b a =
     (if a > 0 then arctan (b / a)
      else if a < 0 then (if b \<ge> 0 then arctan (b / a) + pi else arctan (b / a) - pi)
      else if b > 0 then pi / 2
      else if b < 0 then - pi / 2
      else 0)"

text \<open>The flattened index that the dynamic-yaw branch samples.\<close>

definition yaw_sample_idx :: "grid_data \<Rightarrow> turbine \<Rightarrow> int" where
  "yaw_sample_idx gd t =
     (let xref = xpos t - diam t * cos (yaw t);
          yref = ypos t - diam t * sin (yaw t);
          iu = nearest_index xref (gd_x gd) (istart gd) (iend gd);
          ju = nearest_index yref (gd_y gd) (jstart gd) (jend gd)
      in iu + ju * jstride gd + k_hub t * kstride gd)"

definition update_yaw :: "grid_data \<Rightarrow> real \<Rightarrow> fld \<Rightarrow> fld \<Rightarrow> turbine \<Rightarrow> turbine" where
  "update_yaw gd time u v t =
     (if swdynyaw t \<and> time \<ge> next_yaw t
      then (let idx = yaw_sample_idx gd t;
                ur = u idx;
                vr = v idx;
                target = atan2 vr ur
            in t\<lparr> yaw := yaw t + (target - yaw t) * 0.2,
                  next_yaw := next_yaw t + yawperiod t \<rparr>)
      else t)"

text \<open>The first loop over the footprint: the disk-averaged velocity.\<close>

definition umean_step :: "turbine \<Rightarrow> fld \<Rightarrow> fld \<Rightarrow> nat \<Rightarrow> real \<Rightarrow> real" where
  "umean_step t u v n um =
     (let idx = indices t ! n
      in um + weights t ! n * (u idx * cos (yaw t) + v idx * sin (yaw t)))"

definition disk_mean :: "turbine \<Rightarrow> fld \<Rightarrow> fld \<Rightarrow> real" where
  "disk_mean t u v = fold (umean_step t u v) [0..<length (indices t)] 0"

text \<open>The second loop over the footprint: the forcing, in place.\<close>

definition force_step :: "turbine \<Rightarrow> real \<Rightarrow> nat \<Rightarrow> fld \<times> fld \<Rightarrow> fld \<times> fld" where
  "force_step t thrust n uv =
     (let idx = indices t ! n;
          f = thrust * weights t ! n
      in ((fst uv)(idx := fst uv idx - f * cos (yaw t)),
          (snd uv)(idx := snd uv idx - f * sin (yaw t))))"

definition apply_forcing :: "turbine \<Rightarrow> real \<Rightarrow> fld \<times> fld \<Rightarrow> fld \<times> fld" where
  "apply_forcing t thrust uv = fold (force_step t thrust) [0..<length (indices t)] uv"

definition thrust_of :: "turbine \<Rightarrow> real \<Rightarrow> real" where
  "thrust_of t umean = 0.5 * ct t * umean * \<bar>umean\<bar>"

definition Turbine_exec ::
  "grid_data \<Rightarrow> real \<Rightarrow> turbine \<times> fld \<times> fld \<Rightarrow> turbine \<times> fld \<times> fld" where
  "Turbine_exec gd time s =
     (case s of (t, u, v) \<Rightarrow>
        if time < turbstarttime t then (t, u, v)
        else (let t1 = update_yaw gd time u v t;
                  umean = disk_mean t1 u v;
                  thrust = thrust_of t1 umean;
                  powloc = cp t1 * 0.5 * umean * umean * umean * area t1;
                  t2 = t1\<lparr> power_t := powloc \<rparr>
              in (t2, apply_forcing t2 thrust (u, v))))"

subsection \<open>Windfarm\<close>

definition Windfarm_ctor :: "input \<Rightarrow> windfarm" where
  "Windfarm_ctor inp =
     \<lparr> farm_input = inp,
       nturbrows = in_nturbrows inp,
       nturbcols = in_nturbcols inp,
       spacingx = in_spacingx inp,
       spacingy = in_spacingy inp,
       swstaggered = in_swstaggered inp,
       farmlocx = in_farmlocx inp,
       farmlocy = in_farmlocy inp,
       layoutfile = in_layoutfile inp,
       farm_diam = in_diam inp,
       farm_power = 0,
       turbines = [] \<rparr>"

definition get_farm_power :: "windfarm \<Rightarrow> real" where
  "get_farm_power fm = farm_power fm"

text \<open>The test of the lambda \<^verbatim>\<open>add_turb\<close>: the four strict comparisons.\<close>

definition near_boundary :: "grid_data \<Rightarrow> windfarm \<Rightarrow> real \<Rightarrow> real \<Rightarrow> bool" where
  "near_boundary gd fm x y \<longleftrightarrow>
     x - 0.5 * farm_diam fm < 0 \<or> x + 0.5 * farm_diam fm > xsize gd \<or>
     y - 0.5 * farm_diam fm < 0 \<or> y + 0.5 * farm_diam fm > ysize gd"

text \<open>
  A call that throws leaves the object as it is at the throw: the result is the error, if
  any, and the farm.
\<close>

definition add_turb ::
  "grid_data \<Rightarrow> windfarm \<Rightarrow> real \<times> real \<times> real \<Rightarrow> error option \<times> windfarm" where
  "add_turb gd fm c =
     (case c of (x, y, hh) \<Rightarrow>
        if near_boundary gd fm x y
        then (Some (Runtime_error ''Turbine near boundary''), fm)
        else (None, fm\<lparr> turbines :=
                 turbines fm @ [Turbine_create gd (Turbine_ctor (farm_input fm) x y hh)] \<rparr>))"

fun add_turbs ::
  "grid_data \<Rightarrow> windfarm \<Rightarrow> (real \<times> real \<times> real) list \<Rightarrow> error option \<times> windfarm" where
  "add_turbs gd fm [] = (None, fm)"
| "add_turbs gd fm (c # cs) =
     (case add_turb gd fm c of
        (Some e, fm') \<Rightarrow> (Some e, fm')
      | (None, fm') \<Rightarrow> add_turbs gd fm' cs)"

text \<open>The candidates of the procedural branch, in the order of the two loops.\<close>

definition grid_candidate :: "windfarm \<Rightarrow> int \<Rightarrow> int \<Rightarrow> real \<times> real \<times> real" where
  "grid_candidate fm r c =
     (let y = farmlocy fm + of_int r * spacingy fm * farm_diam fm;
          offset = (if swstaggered fm \<and> r mod 2 = 1 then 0.5 * spacingx fm * farm_diam fm else 0);
          x = farmlocx fm + of_int c * spacingx fm * farm_diam fm + offset
      in (x, y, - 1))"

definition grid_candidates :: "windfarm \<Rightarrow> (real \<times> real \<times> real) list" where
  "grid_candidates fm =
     concat (map (\<lambda>r. map (grid_candidate fm r) [0..nturbcols fm - 1]) [0..nturbrows fm - 1])"

text \<open>
  \<^verbatim>\<open>Windfarm::create\<close>. The file system is the function \<open>fs\<close>: \<open>None\<close> for a path that
  cannot be opened, otherwise the triples that \<^verbatim>\<open>f >> x >> y >> hh\<close> extracts before it
  fails for the first time.
\<close>

definition Windfarm_create ::
  "(string \<Rightarrow> (real \<times> real \<times> real) list option) \<Rightarrow> grid_data \<Rightarrow> windfarm
     \<Rightarrow> error option \<times> windfarm" where
  "Windfarm_create fs gd fm =
     (let fm0 = fm\<lparr> turbines := [] \<rparr>
      in if layoutfile fm \<noteq> []
         then (case fs (layoutfile fm) of
                 None \<Rightarrow> (Some (Runtime_error (''Cannot open layout file '' @ layoutfile fm)), fm0)
               | Some cs \<Rightarrow> add_turbs gd fm0 cs)
         else add_turbs gd fm0 (grid_candidates fm0))"

text \<open>\<^verbatim>\<open>Windfarm::exec\<close>: the range-for over the turbines, on the shared fields.\<close>

definition farm_step ::
  "grid_data \<Rightarrow> real \<Rightarrow> turbine \<Rightarrow> real \<times> turbine list \<times> fld \<times> fld
     \<Rightarrow> real \<times> turbine list \<times> fld \<times> fld" where
  "farm_step gd time t st =
     (case st of (fp, done, u, v) \<Rightarrow>
        (case Turbine_exec gd time (t, u, v) of (t', u', v') \<Rightarrow>
           (fp + get_power t', done @ [t'], u', v')))"

definition Windfarm_exec ::
  "grid_data \<Rightarrow> real \<Rightarrow> windfarm \<times> fld \<times> fld \<Rightarrow> windfarm \<times> fld \<times> fld" where
  "Windfarm_exec gd time s =
     (case s of (fm, u, v) \<Rightarrow>
        (case fold (farm_step gd time) (turbines fm) (0, [], u, v) of (fp, ts, u', v') \<Rightarrow>
           (fm\<lparr> farm_power := fp, turbines := ts \<rparr>, u', v')))"

subsection \<open>Reading the loops\<close>

text \<open>
  The definitions of this subsection are not code of the repository. They name what the
  loops above visit, so that the results can be stated: the turbines' step calls of one
  farm step, the horizontal cells of the grid in loop order, the cells whose centre is
  within the rotor radius, the candidates of a setup call.
\<close>

text \<open>
  The step calls of one \<^verbatim>\<open>Windfarm::exec\<close>, in collection order, each on the fields that
  its predecessors left.
\<close>

fun step_calls :: "grid_data \<Rightarrow> real \<Rightarrow> turbine list \<Rightarrow> fld \<Rightarrow> fld \<Rightarrow> turbine list \<times> fld \<times> fld" where
  "step_calls gd time [] u v = ([], u, v)"
| "step_calls gd time (t # ts) u v =
     (case Turbine_exec gd time (t, u, v) of (t', u', v') \<Rightarrow>
        (case step_calls gd time ts u' v' of (ts', u'', v'') \<Rightarrow> (t' # ts', u'', v'')))"

text \<open>Squared horizontal distance of the centre of cell \<open>(i, j)\<close> to the turbine.\<close>

definition dist2 :: "grid_data \<Rightarrow> turbine \<Rightarrow> int \<times> int \<Rightarrow> real" where
  "dist2 gd t c =
     (gd_x gd (fst c) - xpos t) * (gd_x gd (fst c) - xpos t) +
     (gd_y gd (snd c) - ypos t) * (gd_y gd (snd c) - ypos t)"

definition in_disk :: "grid_data \<Rightarrow> turbine \<Rightarrow> int \<times> int \<Rightarrow> bool" where
  "in_disk gd t c \<longleftrightarrow> sqrt (dist2 gd t c) \<le> diam t * 0.5"

definition cell_pairs :: "grid_data \<Rightarrow> (int \<times> int) list" where
  "cell_pairs gd =
     concat (map (\<lambda>j. map (\<lambda>i. (i, j)) [istart gd..iend gd - 1]) [jstart gd..jend gd - 1])"

definition footprint_cells :: "grid_data \<Rightarrow> turbine \<Rightarrow> (int \<times> int) list" where
  "footprint_cells gd t = filter (in_disk gd t) (cell_pairs gd)"

definition raw_weight :: "grid_data \<Rightarrow> turbine \<Rightarrow> int \<times> int \<Rightarrow> real" where
  "raw_weight gd t c = std_exp (- 6 * dist2 gd t c / ((1.5 * gd_dx gd) * (1.5 * gd_dx gd)))"

definition flat_index :: "grid_data \<Rightarrow> int \<Rightarrow> int \<times> int \<Rightarrow> int" where
  "flat_index gd kh c = fst c + snd c * jstride gd + kh * kstride gd"

text \<open>What \<^verbatim>\<open>add_turb\<close> tests and builds, on a candidate \<open>(x, y, hh)\<close>.\<close>

definition new_turbine :: "grid_data \<Rightarrow> windfarm \<Rightarrow> real \<times> real \<times> real \<Rightarrow> turbine" where
  "new_turbine gd fm c =
     (case c of (x, y, hh) \<Rightarrow> Turbine_create gd (Turbine_ctor (farm_input fm) x y hh))"

definition crosses :: "grid_data \<Rightarrow> windfarm \<Rightarrow> real \<times> real \<times> real \<Rightarrow> bool" where
  "crosses gd fm c \<longleftrightarrow> (case c of (x, y, hh) \<Rightarrow> near_boundary gd fm x y)"

definition cannot_open :: "(string \<Rightarrow> (real \<times> real \<times> real) list option) \<Rightarrow> windfarm \<Rightarrow> bool" where
  "cannot_open fs fm \<longleftrightarrow> layoutfile fm \<noteq> [] \<and> fs (layoutfile fm) = None"

definition candidates ::
  "(string \<Rightarrow> (real \<times> real \<times> real) list option) \<Rightarrow> windfarm \<Rightarrow> (real \<times> real \<times> real) list" where
  "candidates fs fm =
     (if layoutfile fm \<noteq> []
      then (case fs (layoutfile fm) of None \<Rightarrow> [] | Some cs \<Rightarrow> cs)
      else grid_candidates fm)"

subsection \<open>A small grid and a turbine on it\<close>

text \<open>
  Three cells in \<open>x\<close>, one in \<open>y\<close>, one level, unit spacing, cell centres at
  \<open>1/2\<close>, \<open>3/2\<close>, \<open>5/2\<close>; a turbine of diameter 1 at the centre of the middle cell.
\<close>

definition I0 :: input where
  "I0 = \<lparr> in_diam = 1, in_hhub = 1 / 2, in_ct = 1, in_cp = 1, in_tsr = 1,
          in_swdynyaw = True, in_yawperiod = 10, in_turbstarttime = 0,
          in_swturbstats = False, in_turbstatperiod = 0,
          in_nturbrows = 1, in_nturbcols = 2, in_spacingx = 1, in_spacingy = 1,
          in_swstaggered = False, in_farmlocx = 1 / 2, in_farmlocy = 1 / 2,
          in_layoutfile = [] \<rparr>"

definition cell_centre :: "int \<Rightarrow> real" where
  "cell_centre i = of_int i + 1 / 2"

definition G0 :: grid_data where
  "G0 = \<lparr> gd_x = cell_centre, gd_y = cell_centre, gd_z = cell_centre, gd_dx = 1,
          xsize = 3, ysize = 1, istart = 0, iend = 3, jstart = 0, jend = 1,
          kstart = 0, kend = 1, jstride = 3, kstride = 3 \<rparr>"

definition T0 :: turbine where
  "T0 = Turbine_create G0 (Turbine_ctor I0 (3 / 2) (1 / 2) (- 1))"

definition T_late :: turbine where
  "T_late = Turbine_create G0 (Turbine_ctor (I0\<lparr> in_turbstarttime := 5 \<rparr>) (3 / 2) (1 / 2) (- 1))"

definition U0 :: fld where
  "U0 = (\<lambda>_. 1)"

definition V0 :: fld where
  "V0 = (\<lambda>_. 0)"

definition U_rev :: fld where
  "U_rev = (\<lambda>_. - 1)"

definition T_new :: turbine where
  "T_new = Turbine_ctor I0 (3 / 2) (1 / 2) (- 1)"

definition T_far :: turbine where
  "T_far = Turbine_ctor I0 (3 / 2) 5 (- 1)"

definition T_empty :: turbine where
  "T_empty = Turbine_create G0 T_far"

definition T_wide :: turbine where
  "T_wide = Turbine_ctor (I0\<lparr> in_diam := 3 \<rparr>) (3 / 2) (1 / 2) (- 1)"

definition T_wait :: turbine where
  "T_wait = T0\<lparr> next_yaw := 10 \<rparr>"

definition F0 :: windfarm where
  "F0 = Windfarm_ctor I0"

definition F_wide :: windfarm where
  "F_wide = Windfarm_ctor (I0\<lparr> in_nturbcols := 4 \<rparr>)"

definition F_file :: windfarm where
  "F_file = Windfarm_ctor (I0\<lparr> in_layoutfile := ''layout.txt'' \<rparr>)"

definition F_neg :: windfarm where
  "F_neg = Windfarm_ctor (I0\<lparr> in_nturbrows := - 1, in_nturbcols := - 1 \<rparr>)"

text \<open>
  A domain of 80 by 80 with unit spacing, of which the index range holds three cells of
  the row at \<open>y = 81/2\<close> (centres \<open>x = 1/2, 3/2, 5/2\<close>), as on one process of a
  decomposed run; a turbine of diameter 79 at \<open>(40, 81/2)\<close>, whose disk lies inside the
  domain and covers the three cells at distances \<open>79/2, 77/2, 75/2\<close>.
\<close>

definition I_sub :: input where
  "I_sub = I0\<lparr> in_diam := 79 \<rparr>"

definition G_sub :: grid_data where
  "G_sub = \<lparr> gd_x = cell_centre, gd_y = cell_centre, gd_z = cell_centre, gd_dx = 1,
          xsize = 80, ysize = 80, istart = 0, iend = 3, jstart = 40, jend = 41,
          kstart = 0, kend = 1, jstride = 3, kstride = 123 \<rparr>"

definition T_sub :: turbine where
  "T_sub = Turbine_ctor I_sub 40 (81 / 2) (- 1)"

definition F_sub :: windfarm where
  "F_sub = Windfarm_ctor I_sub"

definition FS0 :: "string \<Rightarrow> (real \<times> real \<times> real) list option" where
  "FS0 = (\<lambda>_. None)"

section \<open>Properties\<close>

subsection \<open>The two loops over the footprint\<close>

lemma fold_add_upt:
  "fold (\<lambda>n (acc::real). acc + f n) [0..<k] a = a + (\<Sum>n<k. f n)"
  by (induction k) simp_all

lemma disk_mean_sum:
  "disk_mean t u v =
     (\<Sum>n<length (indices t).
        weights t ! n * (u (indices t ! n) * cos (yaw t) + v (indices t ! n) * sin (yaw t)))"
proof -
  have "umean_step t u v =
          (\<lambda>n acc. acc + weights t ! n * (u (indices t ! n) * cos (yaw t) + v (indices t ! n) * sin (yaw t)))"
    by (simp add: umean_step_def fun_eq_iff Let_def)
  then show ?thesis
    by (simp add: disk_mean_def fold_add_upt)
qed

lemma fold_force_fst:
  "fst (fold (force_step t thrust) ns uv) idx =
     fst uv idx - (\<Sum>n\<leftarrow>ns. if indices t ! n = idx then thrust * weights t ! n * cos (yaw t) else 0)"
  by (induction ns arbitrary: uv) (simp_all add: force_step_def Let_def)

lemma fold_force_snd:
  "snd (fold (force_step t thrust) ns uv) idx =
     snd uv idx - (\<Sum>n\<leftarrow>ns. if indices t ! n = idx then thrust * weights t ! n * sin (yaw t) else 0)"
  by (induction ns arbitrary: uv) (simp_all add: force_step_def Let_def)

lemma sum_list_if_upt:
  "(\<Sum>n\<leftarrow>[0..<k]. if P n then (f n :: real) else 0) = (\<Sum>n | n < k \<and> P n. f n)"
proof -
  have "(\<Sum>n | n < k \<and> P n. f n) = (\<Sum>n\<in>{x \<in> {0..<k}. P x}. f n)"
    by (rule arg_cong[where f = "sum f"]) auto
  also have "\<dots> = (\<Sum>n\<in>{0..<k}. if P n then f n else 0)"
    by (rule sum.inter_filter) simp
  finally show ?thesis
    by (simp add: interv_sum_list_conv_sum_set_nat)
qed

lemma apply_forcing_fst:
  "fst (apply_forcing t thrust (u, v)) idx =
     u idx - (\<Sum>n | n < length (indices t) \<and> indices t ! n = idx. thrust * weights t ! n * cos (yaw t))"
  by (simp add: apply_forcing_def fold_force_fst sum_list_if_upt)

lemma apply_forcing_snd:
  "snd (apply_forcing t thrust (u, v)) idx =
     v idx - (\<Sum>n | n < length (indices t) \<and> indices t ! n = idx. thrust * weights t ! n * sin (yaw t))"
  by (simp add: apply_forcing_def fold_force_snd sum_list_if_upt)

lemma update_yaw_frame:
  "diam (update_yaw gd time u v t) = diam t"
  "ct (update_yaw gd time u v t) = ct t"
  "cp (update_yaw gd time u v t) = cp t"
  "area (update_yaw gd time u v t) = area t"
  "indices (update_yaw gd time u v t) = indices t"
  "weights (update_yaw gd time u v t) = weights t"
  "turbstarttime (update_yaw gd time u v t) = turbstarttime t"
  "k_hub (update_yaw gd time u v t) = k_hub t"
  "power_t (update_yaw gd time u v t) = power_t t"
  by (simp_all add: update_yaw_def Let_def)

text \<open>
  The constructor stores the disk area \<open>pi * diam^2 / 4\<close>; neither
  \<^verbatim>\<open>Turbine::create\<close> nor \<^verbatim>\<open>Turbine::exec\<close> assigns the area or the diameter.
\<close>

lemma area_invariant:
  "area (Turbine_ctor inp x y hh) = pi * (diam (Turbine_ctor inp x y hh))\<^sup>2 / 4"
  "area (Turbine_create gd t) = area t \<and> diam (Turbine_create gd t) = diam t"
  "area (fst (Turbine_exec gd time (t, u, v))) = area t \<and>
   diam (fst (Turbine_exec gd time (t, u, v))) = diam t"
  by (simp_all add: Turbine_ctor_def Turbine_create_def Turbine_exec_def Let_def
      update_yaw_frame power2_eq_square)

subsection \<open>The farm step\<close>

lemma fold_farm_step:
  "fold (farm_step gd time) ts (fp, done, u, v) =
     (case step_calls gd time ts u v of (ts', u', v') \<Rightarrow>
        (foldl (+) fp (map get_power ts'), done @ ts', u', v'))"
proof (induction ts arbitrary: fp "done" u v)
  case Nil
  then show ?case by simp
next
  case (Cons t ts)
  obtain t' u1 v1 where e: "Turbine_exec gd time (t, u, v) = (t', u1, v1)"
    by (cases "Turbine_exec gd time (t, u, v)") auto
  obtain ts' u2 v2 where r: "step_calls gd time ts u1 v1 = (ts', u2, v2)"
    by (cases "step_calls gd time ts u1 v1") auto
  have st: "farm_step gd time t (fp, done, u, v) = (fp + get_power t', done @ [t'], u1, v1)"
    by (simp add: farm_step_def e)
  show ?case
    by (simp add: st e r Cons.IH)
qed

lemma foldl_plus_sum_list:
  "foldl (+) a xs = (a::real) + sum_list xs"
  by (induction xs arbitrary: a) simp_all

subsection \<open>The footprint\<close>

lemma cell_step_eq:
  "cell_step gd t kh j i st =
     (if in_disk gd t (i, j)
      then (fst st @ [flat_index gd kh (i, j)], snd st @ [raw_weight gd t (i, j)])
      else st)"
  by (simp add: cell_step_def in_disk_def dist2_def flat_index_def raw_weight_def Let_def)

lemma fold_cell_step:
  "fold (cell_step gd t kh j) is st =
     (fst st @ map (flat_index gd kh) (filter (in_disk gd t) (map (\<lambda>i. (i, j)) is)),
      snd st @ map (raw_weight gd t) (filter (in_disk gd t) (map (\<lambda>i. (i, j)) is)))"
  by (induction "is" arbitrary: st) (simp_all add: cell_step_eq)

lemma fold_fold_cell_step:
  "fold (\<lambda>j. fold (cell_step gd t kh j) is) js st =
     (fst st @ map (flat_index gd kh)
        (filter (in_disk gd t) (concat (map (\<lambda>j. map (\<lambda>i. (i, j)) is) js))),
      snd st @ map (raw_weight gd t)
        (filter (in_disk gd t) (concat (map (\<lambda>j. map (\<lambda>i. (i, j)) is) js))))"
  by (induction js arbitrary: st) (simp_all add: fold_cell_step)

lemma disk_cells_eq:
  "disk_cells gd t kh =
     (map (flat_index gd kh) (footprint_cells gd t), map (raw_weight gd t) (footprint_cells gd t))"
  by (simp add: disk_cells_def fold_fold_cell_step footprint_cells_def cell_pairs_def)

lemma set_cell_pairs:
  "set (cell_pairs gd) = {(i, j). istart gd \<le> i \<and> i < iend gd \<and> jstart gd \<le> j \<and> j < jend gd}"
  by (auto simp: cell_pairs_def)

lemma raw_weight_nonneg: "0 \<le> raw_weight gd t c"
  by (simp add: raw_weight_def std_exp_def)

lemma sum_list_divide:
  "sum_list (map (\<lambda>w. w / c) ws) = sum_list ws / (c::real)"
  by (induction ws) (simp_all add: add_divide_distrib)

lemma sum_list_zero_all:
  "(\<And>x. x \<in> set xs \<Longrightarrow> 0 \<le> (x::real)) \<Longrightarrow> \<not> 0 < sum_list xs \<Longrightarrow> x \<in> set xs \<Longrightarrow> x = 0"
proof (induction xs)
  case Nil
  then show ?case by simp
next
  case (Cons a xs)
  have a: "0 \<le> a" using Cons.prems(1) by simp
  have r: "0 \<le> sum_list xs" using Cons.prems(1) by (intro sum_list_nonneg) simp
  from Cons.prems(2) a r have "a = 0" "\<not> 0 < sum_list xs" by simp_all
  with Cons.IH Cons.prems(1,3) show ?case by auto
qed

lemma Turbine_create_eq:
  "Turbine_create gd t =
     t\<lparr> k_hub := nearest_index (hhub t) (gd_z gd) (kstart gd) (kend gd),
        indices := map (flat_index gd (nearest_index (hhub t) (gd_z gd) (kstart gd) (kend gd)))
                     (footprint_cells gd t),
        weights :=
          (if 0 < sum_list (map (raw_weight gd t) (footprint_cells gd t))
           then map (\<lambda>c. raw_weight gd t c / sum_list (map (raw_weight gd t) (footprint_cells gd t)))
                  (footprint_cells gd t)
           else map (raw_weight gd t) (footprint_cells gd t)) \<rparr>"
  by (simp add: Turbine_create_def disk_cells_eq Let_def foldl_plus_sum_list comp_def)

text \<open>
  What the guard \<^verbatim>\<open>wsum > 0\<close> leaves: weights that sum to one when some covered cell has
  a positive raw weight, and otherwise the raw weights themselves, which are then all zero.
\<close>

lemma create_weights_cases:
  "(0 < sum_list (map (raw_weight gd t) (footprint_cells gd t)) \<longrightarrow>
      sum_list (weights (Turbine_create gd t)) = 1) \<and>
   (\<not> 0 < sum_list (map (raw_weight gd t) (footprint_cells gd t)) \<longrightarrow>
      (\<forall>w \<in> set (weights (Turbine_create gd t)). w = 0)) \<and>
   (footprint_cells gd t = [] \<longrightarrow>
      indices (Turbine_create gd t) = [] \<and> weights (Turbine_create gd t) = []) \<and>
   length (weights (Turbine_create gd t)) = length (indices (Turbine_create gd t))"
proof -
  define ws where "ws = map (raw_weight gd t) (footprint_cells gd t)"
  have one: "sum_list (map (\<lambda>c. raw_weight gd t c / sum_list ws) (footprint_cells gd t)) = 1"
    if "0 < sum_list ws"
  proof -
    have "sum_list (map (\<lambda>w. w / sum_list ws) ws) = sum_list ws / sum_list ws"
      by (rule sum_list_divide)
    with that show ?thesis by (simp add: ws_def comp_def)
  qed
  have zero: "w = 0" if "\<not> 0 < sum_list ws" "w \<in> set ws" for w
    using that by (intro sum_list_zero_all [of ws]) (auto simp: ws_def raw_weight_nonneg)
  show ?thesis
    using one zero unfolding ws_def by (simp add: Turbine_create_eq)
qed

lemma exec_keeps_footprint:
  "indices (fst (Turbine_exec gd time (t, u, v))) = indices t \<and>
   weights (fst (Turbine_exec gd time (t, u, v))) = weights t"
  by (simp add: Turbine_exec_def Let_def update_yaw_frame)

lemma length_filter_mono:
  "(\<And>x. x \<in> set xs \<Longrightarrow> P x \<Longrightarrow> Q x) \<Longrightarrow> length (filter P xs) \<le> length (filter Q xs)"
  by (induction xs) auto

lemma in_disk_iff:
  "in_disk gd t c \<longleftrightarrow> 0 \<le> diam t \<and> dist2 gd t c \<le> (diam t * 0.5)\<^sup>2"
proof -
  have nn: "0 \<le> dist2 gd t c" by (simp add: dist2_def)
  show ?thesis
  proof (cases "0 \<le> diam t")
    case True
    then have "sqrt ((diam t * 0.5)\<^sup>2) = diam t * 0.5" by simp
    then have "sqrt (dist2 gd t c) \<le> diam t * 0.5 \<longleftrightarrow> dist2 gd t c \<le> (diam t * 0.5)\<^sup>2"
      by (metis real_sqrt_le_iff)
    with True show ?thesis by (simp add: in_disk_def)
  next
    case False
    then have "diam t * 0.5 < 0" by simp
    moreover have "0 \<le> sqrt (dist2 gd t c)" using nn by simp
    ultimately have "\<not> sqrt (dist2 gd t c) \<le> diam t * 0.5" by linarith
    then show ?thesis using False by (simp only: in_disk_def simp_thms)
  qed
qed

subsection \<open>The nearest index\<close>

lemma nearest_step_pair:
  "nearest_step val arr i (idx, md) =
     (if \<bar>arr i - val\<bar> < md then (i, \<bar>arr i - val\<bar>) else (idx, md))"
  by (simp add: nearest_step_def Let_def)

lemma fold_nearest_step:
  assumes "fold (nearest_step val arr) is (idx, \<bar>arr idx - val\<bar>) = (r, md)"
  shows "md = \<bar>arr r - val\<bar> \<and> r \<in> insert idx (set is) \<and>
         (\<forall>i \<in> insert idx (set is). \<bar>arr r - val\<bar> \<le> \<bar>arr i - val\<bar>)"
  using assms
proof (induction "is" arbitrary: idx)
  case Nil
  then show ?case by auto
next
  case (Cons i "is")
  show ?case
  proof (cases "\<bar>arr i - val\<bar> < \<bar>arr idx - val\<bar>")
    case True
    then have "fold (nearest_step val arr) is (i, \<bar>arr i - val\<bar>) = (r, md)"
      using Cons.prems by (simp add: nearest_step_pair)
    from Cons.IH [OF this] True show ?thesis by auto
  next
    case False
    then have "fold (nearest_step val arr) is (idx, \<bar>arr idx - val\<bar>) = (r, md)"
      using Cons.prems by (simp add: nearest_step_pair)
    from Cons.IH [OF this] False show ?thesis by auto
  qed
qed

lemma nearest_index_nearest:
  assumes "s < e"
  shows "s \<le> nearest_index val arr s e \<and> nearest_index val arr s e < e \<and>
         (\<forall>i. s \<le> i \<and> i < e \<longrightarrow> \<bar>arr (nearest_index val arr s e) - val\<bar> \<le> \<bar>arr i - val\<bar>)"
proof -
  obtain r md where f: "fold (nearest_step val arr) [s + 1..e - 1] (s, \<bar>arr s - val\<bar>) = (r, md)"
    by (cases "fold (nearest_step val arr) [s + 1..e - 1] (s, \<bar>arr s - val\<bar>)") auto
  have r: "nearest_index val arr s e = r" by (simp add: nearest_index_def f)
  have "insert s (set [s + 1..e - 1]) = {i. s \<le> i \<and> i < e}" using assms by auto
  with fold_nearest_step [OF f] show ?thesis by (auto simp: r)
qed

subsection \<open>The setup of the farm\<close>

lemma crosses_turbines [simp]: "crosses gd (fm\<lparr> turbines := ts \<rparr>) c = crosses gd fm c"
  by (simp add: crosses_def near_boundary_def split: prod.splits)

lemma new_turbine_turbines [simp]: "new_turbine gd (fm\<lparr> turbines := ts \<rparr>) c = new_turbine gd fm c"
  by (simp add: new_turbine_def split: prod.splits)

lemma grid_candidate_turbines [simp]: "grid_candidate (fm\<lparr> turbines := ts \<rparr>) = grid_candidate fm"
  by (simp add: grid_candidate_def fun_eq_iff Let_def)

lemma grid_candidates_turbines [simp]: "grid_candidates (fm\<lparr> turbines := ts \<rparr>) = grid_candidates fm"
  by (simp add: grid_candidates_def)

lemma add_turb_eq:
  "add_turb gd fm c =
     (if crosses gd fm c then (Some (Runtime_error ''Turbine near boundary''), fm)
      else (None, fm\<lparr> turbines := turbines fm @ [new_turbine gd fm c] \<rparr>))"
  by (cases c) (simp add: add_turb_def crosses_def new_turbine_def)

lemma add_turbs_eq:
  "add_turbs gd fm cs =
     (if \<exists>c \<in> set cs. crosses gd fm c then Some (Runtime_error ''Turbine near boundary'') else None,
      fm\<lparr> turbines := turbines fm @ map (new_turbine gd fm) (takeWhile (\<lambda>c. \<not> crosses gd fm c) cs) \<rparr>)"
proof (induction cs arbitrary: fm)
  case Nil
  then show ?case by simp
next
  case (Cons c cs)
  show ?case
  proof (cases "crosses gd fm c")
    case True
    then show ?thesis by (simp add: add_turb_eq)
  next
    case False
    then show ?thesis by (simp add: add_turb_eq Cons.IH)
  qed
qed

lemma Windfarm_create_eq:
  "Windfarm_create fs gd fm =
     (if cannot_open fs fm
      then (Some (Runtime_error (''Cannot open layout file '' @ layoutfile fm)), fm\<lparr> turbines := [] \<rparr>)
      else (if \<exists>c \<in> set (candidates fs fm). crosses gd fm c
            then Some (Runtime_error ''Turbine near boundary'') else None,
            fm\<lparr> turbines := map (new_turbine gd fm)
                              (takeWhile (\<lambda>c. \<not> crosses gd fm c) (candidates fs fm)) \<rparr>))"
  by (auto simp: Windfarm_create_def Let_def cannot_open_def candidates_def add_turbs_eq
      split: option.splits)

lemma length_concat_map_const:
  "length (concat (map (\<lambda>r. map (f r) cs) rs)) = length rs * length cs"
  by (induction rs) simp_all

lemma nth_concat_map_const:
  "r < length rs \<Longrightarrow> c < length cs \<Longrightarrow>
   concat (map (\<lambda>r. map (f r) cs) rs) ! (r * length cs + c) = f (rs ! r) (cs ! c)"
proof (induction rs arbitrary: r)
  case Nil
  then show ?case by simp
next
  case (Cons a rs)
  show ?case
  proof (cases r)
    case 0
    with Cons.prems show ?thesis by (simp add: nth_append)
  next
    case (Suc k)
    with Cons.prems have "k < length rs" by simp
    from Cons.IH [OF this Cons.prems(2)] Suc show ?thesis
      by (simp add: nth_append add.assoc)
  qed
qed

lemma length_grid_candidates:
  "length (grid_candidates fm) = nat (nturbrows fm) * nat (nturbcols fm)"
  by (simp add: grid_candidates_def length_concat_map_const)

lemma nth_grid_candidates:
  assumes "0 \<le> r" "r < nturbrows fm" "0 \<le> c" "c < nturbcols fm"
  shows "grid_candidates fm ! nat (r * nturbcols fm + c) = grid_candidate fm r c"
proof -
  have l: "length [0..nturbcols fm - 1] = nat (nturbcols fm)" by simp
  have "nat (r * nturbcols fm + c) = nat r * length [0..nturbcols fm - 1] + nat c"
    using assms by (simp add: nat_add_distrib nat_mult_distrib)
  moreover have "nat r < length [0..nturbrows fm - 1]" "nat c < length [0..nturbcols fm - 1]"
    using assms by simp_all
  ultimately show ?thesis
    using assms unfolding grid_candidates_def
    by (simp only: nth_concat_map_const) simp
qed

lemma xpos_new_turbine:
  "xpos (Turbine_create gd (Turbine_ctor inp x y hh)) = x"
  "ypos (Turbine_create gd (Turbine_ctor inp x y hh)) = y"
  "hhub (Turbine_create gd (Turbine_ctor inp x y hh)) = (if hh > 0 then hh else in_hhub inp)"
  by (simp_all add: Turbine_create_def Turbine_ctor_def Let_def)

subsection \<open>What a step reads and writes\<close>

lemma disk_mean_cong:
  assumes "\<forall>idx \<in> set (indices t). u1 idx = u2 idx \<and> v1 idx = v2 idx"
  shows "disk_mean t u1 v1 = disk_mean t u2 v2"
  unfolding disk_mean_sum using assms by (intro sum.cong) simp_all

lemma apply_forcing_outside:
  assumes "idx \<notin> set (indices t)"
  shows "fst (apply_forcing t th (u, v)) idx = u idx \<and> snd (apply_forcing t th (u, v)) idx = v idx"
proof -
  have e: "{n. n < length (indices t) \<and> indices t ! n = idx} = {}"
    using assms by (auto simp: in_set_conv_nth)
  show ?thesis
    by (simp only: apply_forcing_fst apply_forcing_snd e sum.empty diff_zero simp_thms)
qed

lemma update_yaw_cong:
  assumes "swdynyaw t \<and> next_yaw t \<le> time \<longrightarrow>
           u1 (yaw_sample_idx gd t) = u2 (yaw_sample_idx gd t) \<and>
           v1 (yaw_sample_idx gd t) = v2 (yaw_sample_idx gd t)"
  shows "update_yaw gd time u1 v1 t = update_yaw gd time u2 v2 t"
  using assms by (simp add: update_yaw_def Let_def)

lemma exec_reads_cong:
  assumes a: "\<forall>idx \<in> set (indices t). u1 idx = u2 idx \<and> v1 idx = v2 idx"
    and b: "swdynyaw t \<and> turbstarttime t \<le> time \<and> next_yaw t \<le> time \<longrightarrow>
       u1 (yaw_sample_idx gd t) = u2 (yaw_sample_idx gd t) \<and>
       v1 (yaw_sample_idx gd t) = v2 (yaw_sample_idx gd t)"
  shows "fst (Turbine_exec gd time (t, u1, v1)) = fst (Turbine_exec gd time (t, u2, v2)) \<and>
    (\<forall>idx. fst (snd (Turbine_exec gd time (t, u1, v1))) idx - u1 idx =
           fst (snd (Turbine_exec gd time (t, u2, v2))) idx - u2 idx \<and>
           snd (snd (Turbine_exec gd time (t, u1, v1))) idx - v1 idx =
           snd (snd (Turbine_exec gd time (t, u2, v2))) idx - v2 idx)"
proof (cases "time < turbstarttime t")
  case True
  then show ?thesis by (simp add: Turbine_exec_def)
next
  case False
  with b have y: "update_yaw gd time u1 v1 t = update_yaw gd time u2 v2 t"
    by (intro update_yaw_cong) simp
  have "disk_mean (update_yaw gd time u2 v2 t) u1 v1 = disk_mean (update_yaw gd time u2 v2 t) u2 v2"
    using a by (intro disk_mean_cong) (simp add: update_yaw_frame)
  with False y show ?thesis
    by (simp add: Turbine_exec_def Let_def apply_forcing_fst apply_forcing_snd)
qed

lemma exec_writes_inside:
  assumes "idx \<notin> set (indices t)"
  shows "fst (snd (Turbine_exec gd time (t, u, v))) idx = u idx \<and>
         snd (snd (Turbine_exec gd time (t, u, v))) idx = v idx"
  using assms by (simp add: Turbine_exec_def Let_def apply_forcing_outside update_yaw_frame)

subsection \<open>The example evaluated\<close>

lemma T0_eval:
  "T0 = \<lparr> diam = 1, hhub = 1 / 2, ct = 1, cp = 1, tsr = 1, swdynyaw = True, yawperiod = 10,
          turbstarttime = 0, swturbstats = False, turbstatperiod = 0,
          xpos = 3 / 2, ypos = 1 / 2, yaw = 0, next_yaw = 0, area = pi / 4,
          k_hub = 0, indices = [1], weights = [1], power_t = 0 \<rparr>"
  by (simp add: T0_def Turbine_create_def Turbine_ctor_def I0_def G0_def nearest_index_def
      disk_cells_def cell_step_def std_exp_def cell_centre_def Let_def upto.simps)


lemma T_wait_eval:
  "T_wait = \<lparr> diam = 1, hhub = 1 / 2, ct = 1, cp = 1, tsr = 1, swdynyaw = True, yawperiod = 10,
          turbstarttime = 0, swturbstats = False, turbstatperiod = 0,
          xpos = 3 / 2, ypos = 1 / 2, yaw = 0, next_yaw = 10, area = pi / 4,
          k_hub = 0, indices = [1], weights = [1], power_t = 0 \<rparr>"
  by (simp add: T_wait_def T0_eval)

lemma T_new_eval:
  "T_new = \<lparr> diam = 1, hhub = 1 / 2, ct = 1, cp = 1, tsr = 1, swdynyaw = True, yawperiod = 10,
          turbstarttime = 0, swturbstats = False, turbstatperiod = 0,
          xpos = 3 / 2, ypos = 1 / 2, yaw = 0, next_yaw = 0, area = pi / 4,
          k_hub = 0, indices = [], weights = [], power_t = 0 \<rparr>"
  by (simp add: T_new_def Turbine_ctor_def I0_def)

lemma T_far_eval:
  "T_far = \<lparr> diam = 1, hhub = 1 / 2, ct = 1, cp = 1, tsr = 1, swdynyaw = True, yawperiod = 10,
          turbstarttime = 0, swturbstats = False, turbstatperiod = 0,
          xpos = 3 / 2, ypos = 5, yaw = 0, next_yaw = 0, area = pi / 4,
          k_hub = 0, indices = [], weights = [], power_t = 0 \<rparr>"
  by (simp add: T_far_def Turbine_ctor_def I0_def)

lemma T_wide_eval:
  "T_wide = \<lparr> diam = 3, hhub = 1 / 2, ct = 1, cp = 1, tsr = 1, swdynyaw = True, yawperiod = 10,
          turbstarttime = 0, swturbstats = False, turbstatperiod = 0,
          xpos = 3 / 2, ypos = 1 / 2, yaw = 0, next_yaw = 0, area = pi * 9 / 4,
          k_hub = 0, indices = [], weights = [], power_t = 0 \<rparr>"
  by (simp add: T_wide_def Turbine_ctor_def I0_def)

lemma G0_sel:
  "gd_x G0 = cell_centre" "gd_y G0 = cell_centre" "gd_z G0 = cell_centre" "gd_dx G0 = 1"
  "xsize G0 = 3" "ysize G0 = 1" "istart G0 = 0" "iend G0 = 3" "jstart G0 = 0" "jend G0 = 1"
  "kstart G0 = 0" "kend G0 = 1" "jstride G0 = 3" "kstride G0 = 3"
  by (simp_all add: G0_def)

lemma cell_pairs_G0: "cell_pairs G0 = [(0, 0), (1, 0), (2, 0)]"
  by (simp add: cell_pairs_def G0_def upto.simps)

lemma footprint_T_new: "footprint_cells G0 T_new = [(1, 0)]"
  unfolding footprint_cells_def cell_pairs_G0
  by (simp add: in_disk_iff dist2_def T_new_eval G0_def
      cell_centre_def power2_eq_square)

lemma footprint_T_far: "footprint_cells G0 T_far = []"
  unfolding footprint_cells_def cell_pairs_G0
  by (simp add: in_disk_iff dist2_def T_far_eval G0_def
      cell_centre_def power2_eq_square)

lemma footprint_T_wide: "footprint_cells G0 T_wide = [(0, 0), (1, 0), (2, 0)]"
  unfolding footprint_cells_def cell_pairs_G0
  by (simp add: in_disk_iff dist2_def T_wide_eval G0_def
      cell_centre_def power2_eq_square)

lemma T_empty_eval:
  "T_empty = \<lparr> diam = 1, hhub = 1 / 2, ct = 1, cp = 1, tsr = 1, swdynyaw = True, yawperiod = 10,
          turbstarttime = 0, swturbstats = False, turbstatperiod = 0,
          xpos = 3 / 2, ypos = 5, yaw = 0, next_yaw = 0, area = pi / 4,
          k_hub = 0, indices = [], weights = [], power_t = 0 \<rparr>"
  by (simp add: T_empty_def Turbine_create_eq footprint_T_far)
    (simp add: T_far_eval nearest_index_def G0_sel upto.simps)

lemma G_sub_sel:
  "gd_x G_sub = cell_centre" "gd_y G_sub = cell_centre" "gd_z G_sub = cell_centre"
  "gd_dx G_sub = 1" "xsize G_sub = 80" "ysize G_sub = 80" "istart G_sub = 0" "iend G_sub = 3"
  "jstart G_sub = 40" "jend G_sub = 41" "kstart G_sub = 0" "kend G_sub = 1"
  "jstride G_sub = 3" "kstride G_sub = 123"
  by (simp_all add: G_sub_def)

lemma T_sub_eval:
  "T_sub = \<lparr> diam = 79, hhub = 1 / 2, ct = 1, cp = 1, tsr = 1, swdynyaw = True, yawperiod = 10,
          turbstarttime = 0, swturbstats = False, turbstatperiod = 0,
          xpos = 40, ypos = 81 / 2, yaw = 0, next_yaw = 0, area = pi * 79 * 79 / 4,
          k_hub = 0, indices = [], weights = [], power_t = 0 \<rparr>"
  by (simp add: T_sub_def Turbine_ctor_def I_sub_def I0_def)

lemma cell_pairs_G_sub: "cell_pairs G_sub = [(0, 40), (1, 40), (2, 40)]"
  by (simp add: cell_pairs_def G_sub_sel upto.simps)

lemma footprint_T_sub: "footprint_cells G_sub T_sub = [(0, 40), (1, 40), (2, 40)]"
  unfolding footprint_cells_def cell_pairs_G_sub
  by (simp add: in_disk_iff dist2_def T_sub_eval G_sub_sel cell_centre_def power2_eq_square)

lemma raw_weight_T_sub:
  "raw_weight G_sub T_sub (0, 40) = 0" "raw_weight G_sub T_sub (1, 40) = 0"
  "raw_weight G_sub T_sub (2, 40) = 0"
  by (simp_all add: raw_weight_def std_exp_def dist2_def T_sub_eval G_sub_sel cell_centre_def)

lemma k_hub_T_sub: "nearest_index (hhub T_sub) (gd_z G_sub) (kstart G_sub) (kend G_sub) = 0"
  by (simp add: nearest_index_def G_sub_sel upto.simps)

lemma F_sub_sel:
  "farm_diam F_sub = 79" "farm_input F_sub = I_sub" "turbines F_sub = []"
  by (simp_all add: F_sub_def Windfarm_ctor_def I_sub_def I0_def)

lemma sample_T0: "yaw_sample_idx G0 T0 = 0"
  by (simp add: T0_eval yaw_sample_idx_def G0_def nearest_index_def nearest_step_def
      cell_centre_def Let_def upto.simps)

lemma atan2_1_1: "atan2 1 1 = pi / 4"
  by (simp add: atan2_def arctan_one)

lemma F_sel:
  "layoutfile F0 = []" "farm_diam F0 = 1" "farm_input F0 = I0"
  "layoutfile F_wide = []" "farm_diam F_wide = 1"
  "layoutfile F_file = ''layout.txt''"
  "layoutfile F_neg = []" "nturbrows F_neg = - 1" "nturbcols F_neg = - 1"
  by (simp_all add: F0_def F_wide_def F_file_def F_neg_def Windfarm_ctor_def I0_def)

lemma cands_F0: "grid_candidates F0 = [(1 / 2, 1 / 2, - 1), (3 / 2, 1 / 2, - 1)]"
  by (simp add: grid_candidates_def grid_candidate_def F0_def Windfarm_ctor_def I0_def
      Let_def upto.simps)

lemma cands_F_wide:
  "grid_candidates F_wide =
     [(1 / 2, 1 / 2, - 1), (3 / 2, 1 / 2, - 1), (5 / 2, 1 / 2, - 1), (7 / 2, 1 / 2, - 1)]"
  by (simp add: grid_candidates_def grid_candidate_def F_wide_def Windfarm_ctor_def I0_def
      Let_def upto.simps)

lemma cands_F_neg: "grid_candidates F_neg = []"
  by (simp add: grid_candidates_def F_neg_def Windfarm_ctor_def I0_def upto.simps)

lemma near_F_wide:
  "\<not> near_boundary G0 F_wide (1 / 2) (1 / 2)" "\<not> near_boundary G0 F_wide (3 / 2) (1 / 2)"
  "\<not> near_boundary G0 F_wide (5 / 2) (1 / 2)" "near_boundary G0 F_wide (7 / 2) (1 / 2)"
  by (simp_all add: near_boundary_def F_sel G0_sel)

lemma near_F0:
  "\<not> near_boundary G0 F0 (1 / 2) (1 / 2)" "\<not> near_boundary G0 F0 (3 / 2) (1 / 2)"
  by (simp_all add: near_boundary_def F_sel G0_sel)

section \<open>Claims\<close>

subsection \<open>The step of one turbine\<close>

text \<open>
  C1. For a call of \<^verbatim>\<open>Turbine::exec\<close> at or after the activation time, with \<open>psi\<close> the
  yaw after the yaw update of this call: the disk-averaged velocity \<open>vbar\<close> is the sum
  over the footprint of \<open>weight[n] * (u[idx] * cos psi + v[idx] * sin psi)\<close>, read from
  the fields at entry; the thrust is \<open>0.5 * ct * vbar * |vbar|\<close>, negative for negative
  \<open>vbar\<close> when \<open>ct\<close> is positive; the reported power becomes
  \<open>cp * 0.5 * vbar^3 * area\<close> with the area \<open>pi * diam^2 / 4\<close> that the constructor stored
  and that no later call changes;
  reversing the disk-averaged velocity reverses the thrust;
  every footprint entry \<open>n\<close> subtracts \<open>thrust * weight[n] * cos psi\<close> from \<open>u[idx]\<close>
  and \<open>thrust * weight[n] * sin psi\<close> from \<open>v[idx]\<close>. An empty footprint gives
  \<open>vbar = 0\<close>, zero thrust, zero power and unchanged fields.
\<close>

theorem exec_step_formulas:
  assumes "turbstarttime t \<le> time" and "area t = pi * (diam t)\<^sup>2 / 4"
  shows
  "(let psi = yaw (update_yaw gd time u v t);
        vbar = (\<Sum>n<length (indices t).
                  weights t ! n * (u (indices t ! n) * cos psi + v (indices t ! n) * sin psi));
        thrust = 0.5 * ct t * vbar * \<bar>vbar\<bar>
    in \<exists>t' u' v'.
         Turbine_exec gd time (t, u, v) = (t', u', v') \<and>
         yaw t' = psi \<and>
         power_t t' = cp t * 0.5 * vbar ^ 3 * (pi * (diam t)\<^sup>2 / 4) \<and>
         (\<forall>idx. u' idx = u idx -
            (\<Sum>n | n < length (indices t) \<and> indices t ! n = idx. thrust * weights t ! n * cos psi)) \<and>
         (\<forall>idx. v' idx = v idx -
            (\<Sum>n | n < length (indices t) \<and> indices t ! n = idx. thrust * weights t ! n * sin psi)) \<and>
         (0 < ct t \<and> vbar < 0 \<longrightarrow> thrust < 0) \<and>
         (\<forall>x. thrust_of t (- x) = - thrust_of t x) \<and>
         (indices t = [] \<longrightarrow> vbar = 0 \<and> thrust = 0 \<and> power_t t' = 0 \<and> u' = u \<and> v' = v))"
proof -
  define t1 where "t1 = update_yaw gd time u v t"
  define vbar where "vbar = disk_mean t1 u v"
  define thrust where "thrust = thrust_of t1 vbar"
  define t2 where "t2 = t1\<lparr> power_t := cp t1 * 0.5 * vbar * vbar * vbar * area t1 \<rparr>"
  define u' where "u' = fst (apply_forcing t2 thrust (u, v))"
  define v' where "v' = snd (apply_forcing t2 thrust (u, v))"
  have fr: "indices t1 = indices t" "weights t1 = weights t" "ct t1 = ct t" "cp t1 = cp t"
    "area t1 = area t"
    by (simp_all add: t1_def update_yaw_frame)
  have fr2: "indices t2 = indices t" "weights t2 = weights t" "yaw t2 = yaw t1"
    by (simp_all add: t2_def fr)
  have ex: "Turbine_exec gd time (t, u, v) = (t2, u', v')"
    using assms(1)
    by (simp add: Turbine_exec_def Let_def t1_def vbar_def thrust_def t2_def u'_def v'_def)
  have vb: "vbar = (\<Sum>n<length (indices t).
                  weights t ! n * (u (indices t ! n) * cos (yaw t1) + v (indices t ! n) * sin (yaw t1)))"
    by (simp add: vbar_def disk_mean_sum fr)
  have th: "thrust = 0.5 * ct t * vbar * \<bar>vbar\<bar>"
    by (simp add: thrust_def thrust_of_def fr)
  have pw: "power_t t2 = cp t * 0.5 * vbar ^ 3 * (pi * (diam t)\<^sup>2 / 4)"
    by (simp add: t2_def fr assms(2) power3_eq_cube)
  have uu: "u' idx = u idx -
      (\<Sum>n | n < length (indices t) \<and> indices t ! n = idx. thrust * weights t ! n * cos (yaw t1))" for idx
    by (simp add: u'_def apply_forcing_fst fr2)
  have vv: "v' idx = v idx -
      (\<Sum>n | n < length (indices t) \<and> indices t ! n = idx. thrust * weights t ! n * sin (yaw t1))" for idx
    by (simp add: v'_def apply_forcing_snd fr2)
  have sg: "thrust < 0" if "0 < ct t" "vbar < 0"
  proof -
    have "ct t * vbar < 0" using that by (simp add: mult_pos_neg)
    moreover have "0 < \<bar>vbar\<bar>" using that(2) by simp
    ultimately have "ct t * vbar * \<bar>vbar\<bar> < 0" by (rule mult_neg_pos)
    then show ?thesis by (simp add: th)
  qed
  have od: "\<forall>x. thrust_of t (- x) = - thrust_of t x"
    by (simp add: thrust_of_def)
  have em: "vbar = 0 \<and> thrust = 0 \<and> power_t t2 = 0 \<and> u' = u \<and> v' = v" if "indices t = []"
  proof -
    have "vbar = 0" using that by (simp add: vb)
    moreover have "u' = u" "v' = v"
      using that by (simp_all add: u'_def v'_def apply_forcing_def fr2)
    ultimately show ?thesis by (simp add: th pw)
  qed
  have vb': "(\<Sum>n<length (indices t).
                  weights t ! n * (u (indices t ! n) * cos (yaw t1) + v (indices t ! n) * sin (yaw t1))) = vbar"
    by (simp add: vb)
  have th': "0.5 * ct t * vbar * \<bar>vbar\<bar> = thrust"
    by (simp add: th)
  have "Turbine_exec gd time (t, u, v) = (t2, u', v') \<and>
         yaw t2 = yaw t1 \<and>
         power_t t2 = cp t * 0.5 * vbar ^ 3 * (pi * (diam t)\<^sup>2 / 4) \<and>
         (\<forall>idx. u' idx = u idx -
            (\<Sum>n | n < length (indices t) \<and> indices t ! n = idx. thrust * weights t ! n * cos (yaw t1))) \<and>
         (\<forall>idx. v' idx = v idx -
            (\<Sum>n | n < length (indices t) \<and> indices t ! n = idx. thrust * weights t ! n * sin (yaw t1))) \<and>
         (0 < ct t \<and> vbar < 0 \<longrightarrow> thrust < 0) \<and>
         (\<forall>x. thrust_of t (- x) = - thrust_of t x) \<and>
         (indices t = [] \<longrightarrow> vbar = 0 \<and> thrust = 0 \<and> power_t t2 = 0 \<and> u' = u \<and> v' = v)"
    using ex pw uu vv sg od em fr2(3) by blast
  then show ?thesis
    unfolding Let_def t1_def [symmetric] vb' th' by blast
qed

theorem exec_step_formulas_witness:
  "(turbstarttime T_wait \<le> 0 \<and> area T_wait = pi * (diam T_wait)\<^sup>2 / 4 \<and> 0 < ct T_wait \<and>
    yaw (update_yaw G0 0 U_rev V0 T_wait) = 0 \<and>
    power_t (fst (Turbine_exec G0 0 (T_wait, U_rev, V0))) = - (pi / 8) \<and>
    fst (snd (Turbine_exec G0 0 (T_wait, U_rev, V0))) 1 = - (1 / 2)) \<and>
   (turbstarttime T_empty \<le> 0 \<and> area T_empty = pi * (diam T_empty)\<^sup>2 / 4 \<and> indices T_empty = [] \<and>
    power_t (fst (Turbine_exec G0 0 (T_empty, U0, V0))) = 0 \<and>
    snd (Turbine_exec G0 0 (T_empty, U0, V0)) = (U0, V0))"
proof -
  have a1: "turbstarttime T_wait \<le> 0" by (simp add: T_wait_eval)
  have a2: "area T_wait = pi * (diam T_wait)\<^sup>2 / 4" by (simp add: T_wait_eval)
  have a3: "yaw (update_yaw G0 0 U_rev V0 T_wait) = 0"
    by (simp add: update_yaw_def T_wait_eval)
  have s: "{n. n = 0 \<and> [1::int] ! n = 1} = {0}" by auto
  have a: "power_t (fst (Turbine_exec G0 0 (T_wait, U_rev, V0))) = - (pi / 8) \<and>
    fst (snd (Turbine_exec G0 0 (T_wait, U_rev, V0))) 1 = - (1 / 2)"
    using exec_step_formulas [OF a1 a2, of G0 U_rev V0]
    unfolding Let_def a3
    by (auto simp: T_wait_eval U_rev_def V0_def s)
  have b1: "turbstarttime T_empty \<le> 0" by (simp add: T_empty_eval)
  have b2: "area T_empty = pi * (diam T_empty)\<^sup>2 / 4" by (simp add: T_empty_eval)
  have b3: "indices T_empty = []" by (simp add: T_empty_eval)
  have b: "power_t (fst (Turbine_exec G0 0 (T_empty, U0, V0))) = 0 \<and>
    snd (Turbine_exec G0 0 (T_empty, U0, V0)) = (U0, V0)"
    using exec_step_formulas [OF b1 b2, of G0 U0 V0] b3
    unfolding Let_def by auto
  have a4: "0 < ct T_wait" by (simp add: T_wait_eval)
  show ?thesis using a1 a2 a3 a4 a b1 b2 b3 b by blast
qed

subsection \<open>The farm step sums the reported powers\<close>

text \<open>
  C2. After \<^verbatim>\<open>Windfarm::exec\<close> the aggregate that \<^verbatim>\<open>get_farm_power\<close> returns is the sum,
  taken in collection order from zero, of the powers that the turbines report after their
  step calls of this same call; these step calls run in collection order, each on the
  fields that its predecessors left. The accumulator is reset first: its value before
  the call has no influence on the result.
\<close>

theorem farm_power_is_sum:
  "(case Windfarm_exec gd time (fm, u, v) of (fm', u', v') \<Rightarrow>
      (turbines fm', u', v') = step_calls gd time (turbines fm) u v \<and>
      get_farm_power fm' = foldl (+) 0 (map get_power (turbines fm')) \<and>
      get_farm_power fm' = sum_list (map get_power (turbines fm'))) \<and>
   Windfarm_exec gd time (fm\<lparr> farm_power := p \<rparr>, u, v) = Windfarm_exec gd time (fm, u, v)"
proof -
  obtain ts' u' v' where r: "step_calls gd time (turbines fm) u v = (ts', u', v')"
    by (cases "step_calls gd time (turbines fm) u v") auto
  have "foldl (+) 0 (map get_power ts') = sum_list (map get_power ts')"
    by (simp add: foldl_plus_sum_list)
  then show ?thesis
    by (simp add: Windfarm_exec_def fold_farm_step r get_farm_power_def)
qed

subsection \<open>The footprint and its weights\<close>

text \<open>
  C3. The code does not keep the claim that the stored weights sum to 1 whenever some cell
  centre lies within the rotor radius. On the grid \<^const>\<open>G_sub\<close> the candidate
  \<open>(40, 81/2)\<close> of diameter 79 passes the boundary test of \<^verbatim>\<open>add_turb\<close>, and
  \<^verbatim>\<open>Turbine::create\<close> finds three cell centres within the radius. Their exponents are below
  \<open>-3700\<close>, so \<^verbatim>\<open>std::exp\<close> returns zero three times, \<^verbatim>\<open>wsum > 0\<close> is false, the
  normalisation is skipped, and the footprint keeps the weights \<open>[0, 0, 0]\<close>, which sum to
  0. The other parts of the claim hold (\<open>create_weights_cases\<close>, \<open>exec_keeps_footprint\<close>):
  the weights sum to 1 when the raw weights have a positive sum, an empty footprint leaves
  both lists empty, and \<^verbatim>\<open>Turbine::exec\<close> changes neither list.
\<close>

theorem create_weights_underflow:
  "\<not> near_boundary G_sub F_sub 40 (81 / 2) \<and>
   add_turb G_sub F_sub (40, 81 / 2, - 1) =
     (None, F_sub\<lparr> turbines := [Turbine_create G_sub T_sub] \<rparr>) \<and>
   footprint_cells G_sub T_sub = [(0, 40), (1, 40), (2, 40)] \<and>
   indices (Turbine_create G_sub T_sub) = [120, 121, 122] \<and>
   weights (Turbine_create G_sub T_sub) = [0, 0, 0] \<and>
   sum_list (weights (Turbine_create G_sub T_sub)) = 0"
proof -
  have nb: "\<not> near_boundary G_sub F_sub 40 (81 / 2)"
    by (simp add: near_boundary_def F_sub_sel G_sub_sel)
  have at: "add_turb G_sub F_sub (40, 81 / 2, - 1) =
      (None, F_sub\<lparr> turbines := [Turbine_create G_sub T_sub] \<rparr>)"
    using nb by (simp add: add_turb_def F_sub_sel T_sub_def)
  have i: "indices (Turbine_create G_sub T_sub) = [120, 121, 122]"
    unfolding Turbine_create_eq footprint_T_sub k_hub_T_sub
    by (simp add: flat_index_def G_sub_sel)
  have w: "weights (Turbine_create G_sub T_sub) = [0, 0, 0]"
    by (simp add: Turbine_create_eq footprint_T_sub raw_weight_T_sub)
  have z: "sum_list (weights (Turbine_create G_sub T_sub)) = 0"
    by (simp add: w)
  show ?thesis using nb at footprint_T_sub i w z by blast
qed

subsection \<open>What a step reads and writes\<close>

text \<open>
  C4, as amended. \<^verbatim>\<open>Turbine::exec\<close> writes only at indices of the footprint: every other
  entry of \<open>u\<close> and \<open>v\<close> is left as it was. It reads the footprint and, when the dynamic
  yaw update fires (switch on, time at or after the activation time and at or after the
  next update time), the one upstream sample index \<^const>\<open>yaw_sample_idx\<close>, which need not
  belong to the footprint: on two pairs of fields that agree on the footprint, and at the
  sample index when the update fires, the call gives the same turbine state and the same
  increments of \<open>u\<close> and \<open>v\<close> at every index.
\<close>

theorem exec_access_frame:
  "(\<forall>idx. idx \<notin> set (indices t) \<longrightarrow>
      fst (snd (Turbine_exec gd time (t, u, v))) idx = u idx \<and>
      snd (snd (Turbine_exec gd time (t, u, v))) idx = v idx) \<and>
   ((\<forall>idx \<in> set (indices t). u1 idx = u2 idx \<and> v1 idx = v2 idx) \<and>
    (swdynyaw t \<and> turbstarttime t \<le> time \<and> next_yaw t \<le> time \<longrightarrow>
       u1 (yaw_sample_idx gd t) = u2 (yaw_sample_idx gd t) \<and>
       v1 (yaw_sample_idx gd t) = v2 (yaw_sample_idx gd t)) \<longrightarrow>
    fst (Turbine_exec gd time (t, u1, v1)) = fst (Turbine_exec gd time (t, u2, v2)) \<and>
    (\<forall>idx. fst (snd (Turbine_exec gd time (t, u1, v1))) idx - u1 idx =
           fst (snd (Turbine_exec gd time (t, u2, v2))) idx - u2 idx \<and>
           snd (snd (Turbine_exec gd time (t, u1, v1))) idx - v1 idx =
           snd (snd (Turbine_exec gd time (t, u2, v2))) idx - v2 idx))"
  using exec_writes_inside [of _ t gd time u v] exec_reads_cong [of t u1 u2 v1 v2 time gd]
  by blast


theorem exec_access_frame_witness:
  "0 \<notin> set (indices T0) \<and> 2 \<notin> set (indices T0) \<and> yaw_sample_idx G0 T0 \<noteq> 2 \<and>
   fst (snd (Turbine_exec G0 0 (T0, U0, V0))) 0 = U0 0 \<and>
   snd (snd (Turbine_exec G0 0 (T0, U0, V0))) 0 = V0 0 \<and>
   fst (Turbine_exec G0 0 (T0, U0(2 := 5), V0)) = fst (Turbine_exec G0 0 (T0, U0, V0))"
proof -
  have h0: "0 \<notin> set (indices T0)" by (simp add: T0_eval)
  have h2: "2 \<notin> set (indices T0)" by (simp add: T0_eval)
  have hs: "yaw_sample_idx G0 T0 \<noteq> 2" by (simp add: sample_T0)
  have ag: "\<forall>idx \<in> set (indices T0). (U0(2 := 5)) idx = U0 idx \<and> V0 idx = V0 idx"
    by (simp add: T0_eval)
  have sm: "(U0(2 := 5)) (yaw_sample_idx G0 T0) = U0 (yaw_sample_idx G0 T0)"
    by (simp add: sample_T0)
  show ?thesis
    using h0 h2 hs ag sm exec_access_frame [of T0 G0 0 U0 V0 "U0(2 := 5)" U0 V0 V0]
    by blast
qed

text \<open>
  The claim as stated, that every index read belongs to the footprint also with dynamic
  yaw enabled, fails. The turbine \<^const>\<open>T0\<close> has the footprint \<open>[1]\<close> and samples the
  upstream index 0. Changing \<open>v\<close> at index 0 alone changes the yaw after the call from 0
  to \<open>pi / 20\<close>.
\<close>

theorem exec_reads_outside_footprint:
  "swdynyaw T0 \<and> yaw_sample_idx G0 T0 \<notin> set (indices T0) \<and>
   yaw (fst (Turbine_exec G0 0 (T0, U0, V0))) = 0 \<and>
   yaw (fst (Turbine_exec G0 0 (T0, U0, V0(yaw_sample_idx G0 T0 := 1)))) = pi / 20 \<and>
   yaw (fst (Turbine_exec G0 0 (T0, U0, V0(yaw_sample_idx G0 T0 := 1)))) \<noteq>
     yaw (fst (Turbine_exec G0 0 (T0, U0, V0)))"
proof -
  have "atan2 0 1 = 0" by (simp add: atan2_def)
  then show ?thesis
    unfolding sample_T0
    by (simp add: sample_T0 [unfolded T0_eval] Turbine_exec_def update_yaw_def Let_def
        U0_def V0_def T0_eval atan2_1_1)
qed

subsection \<open>The activation gate\<close>

text \<open>
  C5. A call of \<^verbatim>\<open>Turbine::exec\<close> with a time strictly before the activation time
  returns the turbine (reported power, yaw, next yaw time, footprint) and both velocity
  fields exactly as they were. A call at the activation time itself is not skipped: its
  result is that of the full step, i.e. the yaw update, the disk mean, the power and the
  forcing.
\<close>

theorem exec_before_start_noop:
  "(time < turbstarttime t \<longrightarrow> Turbine_exec gd time (t, u, v) = (t, u, v)) \<and>
   Turbine_exec gd (turbstarttime t) (t, u, v) =
     (let t1 = update_yaw gd (turbstarttime t) u v t;
          umean = disk_mean t1 u v
      in (t1\<lparr> power_t := cp t1 * 0.5 * umean * umean * umean * area t1 \<rparr>,
          apply_forcing (t1\<lparr> power_t := cp t1 * 0.5 * umean * umean * umean * area t1 \<rparr>)
            (thrust_of t1 umean) (u, v)))"
  by (simp add: Turbine_exec_def Let_def)


theorem exec_before_start_noop_witness:
  "0 < turbstarttime T_late \<and> Turbine_exec G0 0 (T_late, U0, V0) = (T_late, U0, V0)"
proof -
  have h: "0 < turbstarttime T_late"
    by (simp add: T_late_def Turbine_create_def Turbine_ctor_def I0_def Let_def)
  show ?thesis using h exec_before_start_noop [of 0 T_late G0 U0 V0] by blast
qed


subsection \<open>Dynamic yaw\<close>

text \<open>
  C6. With dynamic yaw enabled, the time at or after the activation time and at or after
  the next scheduled update, \<^verbatim>\<open>Turbine::exec\<close> sets the yaw to
  \<open>yaw + 0.2 * (atan2 v_s u_s - yaw)\<close> and adds the yaw period to the next update time.
  The sample \<open>(u_s, v_s)\<close> is read from the fields at entry, at the flattened index of
  the hub level and of the cell whose \<open>x\<close> coordinate is nearest to
  \<open>xpos - diam * cos yaw\<close> and whose \<open>y\<close> coordinate is nearest to
  \<open>ypos - diam * sin yaw\<close> (each axis on its own, over the index range of the grid, with
  the old yaw). With dynamic yaw disabled, or before the next scheduled update, yaw and
  schedule are unchanged.
\<close>

theorem dynamic_yaw_update:
  "(let t' = fst (Turbine_exec gd time (t, u, v));
        xref = xpos t - diam t * cos (yaw t);
        yref = ypos t - diam t * sin (yaw t);
        iu = nearest_index xref (gd_x gd) (istart gd) (iend gd);
        ju = nearest_index yref (gd_y gd) (jstart gd) (jend gd);
        idx = iu + ju * jstride gd + k_hub t * kstride gd
    in (swdynyaw t \<and> turbstarttime t \<le> time \<and> next_yaw t \<le> time \<longrightarrow>
          yaw t' = yaw t + 0.2 * (atan2 (v idx) (u idx) - yaw t) \<and>
          next_yaw t' = next_yaw t + yawperiod t) \<and>
       (\<not> swdynyaw t \<or> time < next_yaw t \<longrightarrow> yaw t' = yaw t \<and> next_yaw t' = next_yaw t) \<and>
       (istart gd < iend gd \<longrightarrow>
          istart gd \<le> iu \<and> iu < iend gd \<and>
          (\<forall>i. istart gd \<le> i \<and> i < iend gd \<longrightarrow> \<bar>gd_x gd iu - xref\<bar> \<le> \<bar>gd_x gd i - xref\<bar>)) \<and>
       (jstart gd < jend gd \<longrightarrow>
          jstart gd \<le> ju \<and> ju < jend gd \<and>
          (\<forall>j. jstart gd \<le> j \<and> j < jend gd \<longrightarrow> \<bar>gd_y gd ju - yref\<bar> \<le> \<bar>gd_y gd j - yref\<bar>)))"
proof -
  have a: "yaw (fst (Turbine_exec gd time (t, u, v))) =
             yaw t + 0.2 * (atan2 (v (yaw_sample_idx gd t)) (u (yaw_sample_idx gd t)) - yaw t) \<and>
           next_yaw (fst (Turbine_exec gd time (t, u, v))) = next_yaw t + yawperiod t"
    if "swdynyaw t" "turbstarttime t \<le> time" "next_yaw t \<le> time"
    using that by (simp add: Turbine_exec_def update_yaw_def Let_def)
  have b: "yaw (fst (Turbine_exec gd time (t, u, v))) = yaw t \<and>
           next_yaw (fst (Turbine_exec gd time (t, u, v))) = next_yaw t"
    if "\<not> swdynyaw t \<or> time < next_yaw t"
    using that by (auto simp: Turbine_exec_def update_yaw_def Let_def)
  show ?thesis
    unfolding Let_def
    using a b nearest_index_nearest [of "istart gd" "iend gd" _ "gd_x gd"]
      nearest_index_nearest [of "jstart gd" "jend gd" _ "gd_y gd"]
    by (simp add: yaw_sample_idx_def Let_def)
qed

theorem dynamic_yaw_update_witness:
  "(swdynyaw T0 \<and> turbstarttime T0 \<le> 0 \<and> next_yaw T0 \<le> 0 \<and>
    istart G0 < iend G0 \<and> jstart G0 < jend G0 \<and>
    yaw (fst (Turbine_exec G0 0 (T0, U0, V0(0 := 1)))) = pi / 20 \<and>
    next_yaw (fst (Turbine_exec G0 0 (T0, U0, V0(0 := 1)))) = 10) \<and>
   (1 < next_yaw T_wait \<and>
    yaw (fst (Turbine_exec G0 1 (T_wait, U0, V0))) = 0 \<and>
    next_yaw (fst (Turbine_exec G0 1 (T_wait, U0, V0))) = 10)"
proof -
  have h1: "swdynyaw T0" "turbstarttime T0 \<le> 0" "next_yaw T0 \<le> 0"
    by (simp_all add: T0_eval)
  have g: "istart G0 < iend G0" "jstart G0 < jend G0"
    by (simp_all add: G0_sel)
  have s: "nearest_index (xpos T0 - diam T0 * cos (yaw T0)) (gd_x G0) (istart G0) (iend G0) +
           nearest_index (ypos T0 - diam T0 * sin (yaw T0)) (gd_y G0) (jstart G0) (jend G0) *
           jstride G0 + k_hub T0 * kstride G0 = 0"
    using sample_T0 by (simp add: yaw_sample_idx_def Let_def)
  note d = dynamic_yaw_update [where gd = G0 and time = 0 and t = T0 and u = U0 and v = "V0(0 := 1)", unfolded Let_def s]
  have a: "yaw (fst (Turbine_exec G0 0 (T0, U0, V0(0 := 1)))) = pi / 20 \<and>
    next_yaw (fst (Turbine_exec G0 0 (T0, U0, V0(0 := 1)))) = 10"
    using d [THEN conjunct1] h1 by (simp add: T0_eval U0_def atan2_1_1)
  have w: "1 < next_yaw T_wait" by (simp add: T_wait_eval)
  note e = dynamic_yaw_update [where gd = G0 and time = 1 and t = T_wait and u = U0 and v = V0, unfolded Let_def]
  have b: "yaw (fst (Turbine_exec G0 1 (T_wait, U0, V0))) = 0 \<and>
    next_yaw (fst (Turbine_exec G0 1 (T_wait, U0, V0))) = 10"
    using e [THEN conjunct2, THEN conjunct1] w by (simp add: T_wait_eval)
  show ?thesis using h1 g a w b by blast
qed

subsection \<open>Failures of the farm setup\<close>

text \<open>
  C7. \<^verbatim>\<open>Windfarm::create\<close> ends with an error exactly when the layout file path is not empty
  and the file cannot be opened, or when some candidate position has a disk that crosses a
  horizontal domain edge; every candidate with \<open>x - 0.5 * diam < 0\<close> is such a candidate.
  The error carries a message. A file that cannot be opened leaves the collection empty.
  A crossing candidate ends the call at the first such candidate: the collection then
  holds the turbines of the candidates before it, in order, and nothing of those after it.
\<close>

theorem create_fails_exactly:
  "(case Windfarm_create fs gd fm of (err, fm') \<Rightarrow>
      (err \<noteq> None \<longleftrightarrow>
         (layoutfile fm \<noteq> [] \<and> fs (layoutfile fm) = None) \<or>
         (\<exists>(x, y, hh) \<in> set (candidates fs fm). near_boundary gd fm x y)) \<and>
      (layoutfile fm \<noteq> [] \<and> fs (layoutfile fm) = None \<longrightarrow>
         err = Some (Runtime_error (''Cannot open layout file '' @ layoutfile fm)) \<and>
         turbines fm' = []) \<and>
      (\<not> (layoutfile fm \<noteq> [] \<and> fs (layoutfile fm) = None) \<longrightarrow>
         ((\<exists>(x, y, hh) \<in> set (candidates fs fm). near_boundary gd fm x y) \<longrightarrow>
            err = Some (Runtime_error ''Turbine near boundary'')) \<and>
         ((\<exists>(x, y, hh) \<in> set (candidates fs fm). x - 0.5 * farm_diam fm < 0) \<longrightarrow> err \<noteq> None) \<and>
         turbines fm' =
           map (\<lambda>(x, y, hh). Turbine_create gd (Turbine_ctor (farm_input fm) x y hh))
             (takeWhile (\<lambda>(x, y, hh). \<not> near_boundary gd fm x y) (candidates fs fm))))"
proof -
  have c: "crosses gd fm = (\<lambda>(x, y, hh). near_boundary gd fm x y)"
    by (simp add: crosses_def fun_eq_iff)
  have n: "new_turbine gd fm = (\<lambda>(x, y, hh). Turbine_create gd (Turbine_ctor (farm_input fm) x y hh))"
    by (simp add: new_turbine_def fun_eq_iff)
  have o: "cannot_open fs fm \<longleftrightarrow> layoutfile fm \<noteq> [] \<and> fs (layoutfile fm) = None"
    by (simp add: cannot_open_def)
  have nc: "(\<lambda>c. \<not> crosses gd fm c) = (\<lambda>(x, y, hh). \<not> near_boundary gd fm x y)"
    by (simp add: crosses_def fun_eq_iff)
  have x: "\<exists>(x, y, hh) \<in> set (candidates fs fm). near_boundary gd fm x y"
    if "\<exists>(x, y, hh) \<in> set (candidates fs fm). x - 0.5 * farm_diam fm < 0"
    using that by (fastforce simp: near_boundary_def)
  show ?thesis
    using x unfolding Windfarm_create_eq o c n
    by (auto split: if_splits simp: split_def)
qed

theorem create_fails_exactly_witness:
  "(layoutfile F_wide = [] \<and> near_boundary G0 F_wide (7 / 2) (1 / 2) \<and>
    fst (Windfarm_create FS0 G0 F_wide) = Some (Runtime_error ''Turbine near boundary'') \<and>
    length (turbines (snd (Windfarm_create FS0 G0 F_wide))) = 3) \<and>
   (layoutfile F_file \<noteq> [] \<and> FS0 (layoutfile F_file) = None \<and>
    fst (Windfarm_create FS0 G0 F_file) =
      Some (Runtime_error ''Cannot open layout file layout.txt'') \<and>
    turbines (snd (Windfarm_create FS0 G0 F_file)) = [])"
proof -
  have c: "candidates FS0 F_wide = grid_candidates F_wide"
    by (simp add: candidates_def F_sel)
  have x: "\<exists>(x, y, hh) \<in> set (candidates FS0 F_wide). near_boundary G0 F_wide x y"
    unfolding c cands_F_wide using near_F_wide by simp
  have tw: "takeWhile (\<lambda>(x, y, hh). \<not> near_boundary G0 F_wide x y) (candidates FS0 F_wide) =
              [(1 / 2, 1 / 2, - 1), (3 / 2, 1 / 2, - 1), (5 / 2, 1 / 2, - 1)]"
    unfolding c cands_F_wide using near_F_wide by simp
  have a: "fst (Windfarm_create FS0 G0 F_wide) = Some (Runtime_error ''Turbine near boundary'') \<and>
    length (turbines (snd (Windfarm_create FS0 G0 F_wide))) = 3"
    using create_fails_exactly [where fs = FS0 and gd = G0 and fm = F_wide] x
    unfolding tw by (auto simp: F_sel split: prod.splits)
  have o: "layoutfile F_file \<noteq> []" "FS0 (layoutfile F_file) = None"
    by (simp_all add: F_sel FS0_def)
  have b: "fst (Windfarm_create FS0 G0 F_file) =
      Some (Runtime_error ''Cannot open layout file layout.txt'') \<and>
    turbines (snd (Windfarm_create FS0 G0 F_file)) = []"
    using create_fails_exactly [where fs = FS0 and gd = G0 and fm = F_file] o
    by (auto simp: F_sel split: prod.splits)
  show ?thesis using a b o near_F_wide(4) F_sel(4) by blast
qed

subsection \<open>The procedural layout\<close>

text \<open>
  C8, as amended. With an empty layout file path and all candidates inside the domain,
  \<^verbatim>\<open>Windfarm::create\<close> ends without error and produces \<open>max nturbrows 0 * max nturbcols 0\<close>
  turbines, which is \<open>nturbrows * nturbcols\<close> when neither count is negative. For
  \<open>0 \<le> r < nturbrows\<close> and \<open>0 \<le> c < nturbcols\<close> the turbine number \<open>r * nturbcols + c\<close> stands
  at \<open>(farmlocx + c * spacingx * diam, farmlocy + r * spacingy * diam)\<close>, moved by
  \<open>0.5 * spacingx * diam\<close> in \<open>x\<close> exactly when staggering is enabled and \<open>r\<close> is odd, and
  has the configured hub height.
\<close>

theorem procedural_layout:
  assumes "layoutfile fm = []"
    and "\<forall>(x, y, hh) \<in> set (grid_candidates fm). \<not> near_boundary gd fm x y"
  shows
  "(case Windfarm_create fs gd fm of (err, fm') \<Rightarrow>
      err = None \<and>
      length (turbines fm') = nat (nturbrows fm) * nat (nturbcols fm) \<and>
      (0 \<le> nturbrows fm \<and> 0 \<le> nturbcols fm \<longrightarrow>
         int (length (turbines fm')) = nturbrows fm * nturbcols fm) \<and>
      (\<forall>r c. 0 \<le> r \<and> r < nturbrows fm \<and> 0 \<le> c \<and> c < nturbcols fm \<longrightarrow>
         (let t = turbines fm' ! nat (r * nturbcols fm + c)
          in xpos t = farmlocx fm + of_int c * spacingx fm * farm_diam fm +
                      (if swstaggered fm \<and> odd r then 0.5 * spacingx fm * farm_diam fm else 0) \<and>
             ypos t = farmlocy fm + of_int r * spacingy fm * farm_diam fm \<and>
             hhub t = in_hhub (farm_input fm))))"
proof -
  have c: "candidates fs fm = grid_candidates fm"
    using assms(1) by (simp add: candidates_def)
  have nc: "\<not> crosses gd fm x" if "x \<in> set (grid_candidates fm)" for x
    using assms(2) that by (auto simp: crosses_def)
  then have tw: "takeWhile (\<lambda>c. \<not> crosses gd fm c) (grid_candidates fm) = grid_candidates fm"
    by simp
  have e: "Windfarm_create fs gd fm =
             (None, fm\<lparr> turbines := map (new_turbine gd fm) (grid_candidates fm) \<rparr>)"
    using assms(1) nc by (auto simp: Windfarm_create_eq cannot_open_def c tw)
  have n: "(let t = map (new_turbine gd fm) (grid_candidates fm) ! nat (r * nturbcols fm + c)
          in xpos t = farmlocx fm + of_int c * spacingx fm * farm_diam fm +
                      (if swstaggered fm \<and> odd r then 0.5 * spacingx fm * farm_diam fm else 0) \<and>
             ypos t = farmlocy fm + of_int r * spacingy fm * farm_diam fm \<and>
             hhub t = in_hhub (farm_input fm))"
    if "0 \<le> r" "r < nturbrows fm" "0 \<le> c" "c < nturbcols fm" for r c
  proof -
    have "nat (r * nturbcols fm + c) < nat (nturbrows fm) * nat (nturbcols fm)"
    proof -
      have "r * nturbcols fm + c < (r + 1) * nturbcols fm" using that by (simp add: algebra_simps)
      also have "\<dots> \<le> nturbrows fm * nturbcols fm"
        using that by (intro mult_right_mono) simp_all
      finally have "r * nturbcols fm + c < nturbrows fm * nturbcols fm" .
      moreover have "nat (nturbrows fm) * nat (nturbcols fm) = nat (nturbrows fm * nturbcols fm)"
        using that by (simp add: nat_mult_distrib)
      ultimately show ?thesis using that by simp
    qed
    then have "map (new_turbine gd fm) (grid_candidates fm) ! nat (r * nturbcols fm + c) =
          new_turbine gd fm (grid_candidate fm r c)"
      using that by (simp add: length_grid_candidates nth_grid_candidates)
    moreover have "r mod 2 = 1 \<longleftrightarrow> odd r" by presburger
    ultimately show ?thesis
      by (simp add: new_turbine_def grid_candidate_def Let_def xpos_new_turbine)
  qed
  have l: "int (nat (nturbrows fm) * nat (nturbcols fm)) = nturbrows fm * nturbcols fm"
    if "0 \<le> nturbrows fm \<and> 0 \<le> nturbcols fm"
    using that by simp
  show ?thesis
    using n l by (simp add: e length_grid_candidates)
qed


theorem procedural_layout_witness:
  "layoutfile F0 = [] \<and>
   grid_candidates F0 = [(1 / 2, 1 / 2, - 1), (3 / 2, 1 / 2, - 1)] \<and>
   \<not> near_boundary G0 F0 (1 / 2) (1 / 2) \<and> \<not> near_boundary G0 F0 (3 / 2) (1 / 2) \<and>
   fst (Windfarm_create FS0 G0 F0) = None \<and>
   length (turbines (snd (Windfarm_create FS0 G0 F0))) = 2 \<and>
   xpos (turbines (snd (Windfarm_create FS0 G0 F0)) ! 1) = 3 / 2 \<and>
   ypos (turbines (snd (Windfarm_create FS0 G0 F0)) ! 1) = 1 / 2 \<and>
   hhub (turbines (snd (Windfarm_create FS0 G0 F0)) ! 1) = 1 / 2"
proof -
  have h1: "layoutfile F0 = []" by (simp add: F_sel)
  have h2: "\<forall>(x, y, hh) \<in> set (grid_candidates F0). \<not> near_boundary G0 F0 x y"
    unfolding cands_F0 using near_F0 by simp
  have r: "nturbrows F0 = 1" "nturbcols F0 = 2" "farmlocx F0 = 1 / 2" "farmlocy F0 = 1 / 2"
    "spacingx F0 = 1" "spacingy F0 = 1" "swstaggered F0 = False" "in_hhub (farm_input F0) = 1 / 2"
    "farm_diam F0 = 1"
    by (simp_all add: F0_def Windfarm_ctor_def I0_def)
  obtain err fm' where w: "Windfarm_create FS0 G0 F0 = (err, fm')"
    by (cases "Windfarm_create FS0 G0 F0") auto
  note p = procedural_layout [OF h1 h2, where fs = FS0, unfolded w prod.case]
  have e: "err = None" using p by (rule conjunct1)
  have l: "length (turbines fm') = 2"
    using p [THEN conjunct2, THEN conjunct1] by (simp add: r)
  have "0 \<le> (0::int) \<and> (0::int) < nturbrows F0 \<and> 0 \<le> (1::int) \<and> (1::int) < nturbcols F0"
    by (simp add: r)
  with p [THEN conjunct2, THEN conjunct2, THEN conjunct2, rule_format, of 0 1]
  have t: "xpos (turbines fm' ! 1) = 3 / 2 \<and> ypos (turbines fm' ! 1) = 1 / 2 \<and>
           hhub (turbines fm' ! 1) = 1 / 2"
    by (simp add: r Let_def)
  show ?thesis using h1 cands_F0 near_F0 e l t by (simp add: w)
qed

text \<open>
  The claim as stated, exactly \<open>nturbrows * nturbcols\<close> turbines for every configuration,
  fails for negative counts: with \<open>nturbrows = nturbcols = - 1\<close> neither loop runs, no
  candidate is rejected, the collection is empty, and the product is 1.
\<close>

theorem procedural_count_counterexample:
  "layoutfile F_neg = [] \<and> grid_candidates F_neg = [] \<and>
   fst (Windfarm_create FS0 G0 F_neg) = None \<and>
   length (turbines (snd (Windfarm_create FS0 G0 F_neg))) = 0 \<and>
   nturbrows F_neg * nturbcols F_neg = 1"
  by (simp add: Windfarm_create_def Let_def F_sel cands_F_neg
      grid_candidates_turbines [where fm = F_neg and ts = "[]"])

subsection \<open>A larger rotor covers no fewer cells\<close>

text \<open>
  C9. On one grid and at one position, a turbine of the larger diameter has a footprint of
  at least as many cells as a turbine of the smaller diameter.
\<close>

theorem footprint_count_mono:
  assumes "diam t1 \<le> diam t2" and "xpos t1 = xpos t2" and "ypos t1 = ypos t2"
  shows "length (indices (Turbine_create gd t1)) \<le> length (indices (Turbine_create gd t2))"
proof -
  have "in_disk gd t2 c" if "in_disk gd t1 c" for c
    using that assms by (simp add: in_disk_def dist2_def)
  then have "length (footprint_cells gd t1) \<le> length (footprint_cells gd t2)"
    unfolding footprint_cells_def by (intro length_filter_mono) simp
  then show ?thesis by (simp add: Turbine_create_eq)
qed

theorem footprint_count_mono_witness:
  "diam T_new \<le> diam T_wide \<and> xpos T_new = xpos T_wide \<and> ypos T_new = ypos T_wide \<and>
   length (indices (Turbine_create G0 T_new)) = 1 \<and>
   length (indices (Turbine_create G0 T_wide)) = 3 \<and>
   length (indices (Turbine_create G0 T_new)) \<le> length (indices (Turbine_create G0 T_wide))"
proof -
  have h1: "diam T_new \<le> diam T_wide" by (simp add: T_new_eval T_wide_eval)
  have h2: "xpos T_new = xpos T_wide" by (simp add: T_new_eval T_wide_eval)
  have h3: "ypos T_new = ypos T_wide" by (simp add: T_new_eval T_wide_eval)
  have l1: "length (indices (Turbine_create G0 T_new)) = 1"
    by (simp add: Turbine_create_eq footprint_T_new)
  have l3: "length (indices (Turbine_create G0 T_wide)) = 3"
    by (simp add: Turbine_create_eq footprint_T_wide)
  show ?thesis
    using h1 h2 h3 l1 l3 footprint_count_mono [OF h1 h2 h3, of G0] by blast
qed

subsection \<open>A disk that touches the edge\<close>

text \<open>
  C10. A candidate whose disk touches a horizontal domain edge and crosses none is
  accepted: \<^verbatim>\<open>add_turb\<close> raises nothing and appends a turbine at that position. In the
  whole setup call, when the file could be opened (or the layout is procedural) and no
  earlier candidate crosses an edge, the turbine of this candidate stands in the collection
  at the candidate's place, and the call ends without error if no later candidate crosses
  an edge either.
\<close>

theorem tangent_accepted:
  assumes "x - 0.5 * farm_diam fm = 0 \<or> x + 0.5 * farm_diam fm = xsize gd \<or>
           y - 0.5 * farm_diam fm = 0 \<or> y + 0.5 * farm_diam fm = ysize gd"
    and "0 \<le> x - 0.5 * farm_diam fm" and "x + 0.5 * farm_diam fm \<le> xsize gd"
    and "0 \<le> y - 0.5 * farm_diam fm" and "y + 0.5 * farm_diam fm \<le> ysize gd"
  shows
  "(\<exists>t. add_turb gd fm (x, y, hh) = (None, fm\<lparr> turbines := turbines fm @ [t] \<rparr>) \<and>
        t = Turbine_create gd (Turbine_ctor (farm_input fm) x y hh) \<and>
        xpos t = x \<and> ypos t = y) \<and>
   (\<not> (layoutfile fm \<noteq> [] \<and> fs (layoutfile fm) = None) \<and>
    candidates fs fm = pre @ (x, y, hh) # post \<and>
    (\<forall>(x', y', hh') \<in> set pre. \<not> near_boundary gd fm x' y') \<longrightarrow>
      (case Windfarm_create fs gd fm of (err, fm') \<Rightarrow>
         length pre < length (turbines fm') \<and>
         xpos (turbines fm' ! length pre) = x \<and>
         ypos (turbines fm' ! length pre) = y \<and>
         ((\<forall>(x', y', hh') \<in> set post. \<not> near_boundary gd fm x' y') \<longrightarrow> err = None)))"
proof -
  have nb: "\<not> near_boundary gd fm x y"
    using assms(2-) by (simp add: near_boundary_def)
  have one: "\<exists>t. add_turb gd fm (x, y, hh) = (None, fm\<lparr> turbines := turbines fm @ [t] \<rparr>) \<and>
        t = Turbine_create gd (Turbine_ctor (farm_input fm) x y hh) \<and>
        xpos t = x \<and> ypos t = y"
    using nb by (simp add: add_turb_def xpos_new_turbine)
  have all: "case Windfarm_create fs gd fm of (err, fm') \<Rightarrow>
         length pre < length (turbines fm') \<and>
         xpos (turbines fm' ! length pre) = x \<and>
         ypos (turbines fm' ! length pre) = y \<and>
         ((\<forall>(x', y', hh') \<in> set post. \<not> near_boundary gd fm x' y') \<longrightarrow> err = None)"
    if o: "\<not> (layoutfile fm \<noteq> [] \<and> fs (layoutfile fm) = None)"
      and c: "candidates fs fm = pre @ (x, y, hh) # post"
      and p: "\<forall>(x', y', hh') \<in> set pre. \<not> near_boundary gd fm x' y'"
  proof -
    have p': "\<forall>c \<in> set pre. \<not> crosses gd fm c"
      using p by (auto simp: crosses_def)
    have x': "\<not> crosses gd fm (x, y, hh)"
      using nb by (simp add: crosses_def)
    have tw: "takeWhile (\<lambda>c. \<not> crosses gd fm c) (candidates fs fm) =
                pre @ (x, y, hh) # takeWhile (\<lambda>c. \<not> crosses gd fm c) post"
      using p' x' by (simp add: c)
    have e: "\<not> (\<exists>c \<in> set (candidates fs fm). crosses gd fm c)"
      if "\<forall>(x', y', hh') \<in> set post. \<not> near_boundary gd fm x' y'"
      using that p' x' by (auto simp: c crosses_def)
    define ts where "ts = map (new_turbine gd fm)
              (pre @ (x, y, hh) # takeWhile (\<lambda>c. \<not> crosses gd fm c) post)"
    have wc: "Windfarm_create fs gd fm =
        (if \<exists>c \<in> set (candidates fs fm). crosses gd fm c
         then Some (Runtime_error ''Turbine near boundary'') else None,
         fm\<lparr> turbines := ts \<rparr>)"
      using o by (simp only: Windfarm_create_eq cannot_open_def tw ts_def if_False)
    have sel: "turbines (fm\<lparr> turbines := ts \<rparr>) = ts" by simp
    have len: "length pre < length ts" by (simp add: ts_def)
    have nth: "ts ! length pre = new_turbine gd fm (x, y, hh)"
      by (simp add: ts_def nth_append)
    have xy: "xpos (ts ! length pre) = x" "ypos (ts ! length pre) = y"
      by (simp_all add: nth new_turbine_def xpos_new_turbine)
    have er: "(if \<exists>c \<in> set (candidates fs fm). crosses gd fm c
         then Some (Runtime_error ''Turbine near boundary'') else None) = None"
      if "\<forall>(x', y', hh') \<in> set post. \<not> near_boundary gd fm x' y'"
      using e [OF that] by simp
    show ?thesis
      unfolding wc prod.case sel
    proof (intro conjI impI)
      show "length pre < length ts" by (rule len)
      show "xpos (ts ! length pre) = x" by (rule xy)
      show "ypos (ts ! length pre) = y" by (rule xy)
      assume "\<forall>(x', y', hh') \<in> set post. \<not> near_boundary gd fm x' y'"
      then show "(if \<exists>c \<in> set (candidates fs fm). crosses gd fm c
         then Some (Runtime_error ''Turbine near boundary'') else None) = None"
        by (rule er)
    qed
  qed
  show ?thesis
  proof (intro conjI impI)
    show "\<exists>t. add_turb gd fm (x, y, hh) = (None, fm\<lparr> turbines := turbines fm @ [t] \<rparr>) \<and>
        t = Turbine_create gd (Turbine_ctor (farm_input fm) x y hh) \<and>
        xpos t = x \<and> ypos t = y"
      by (rule one)
  next
    assume h: "\<not> (layoutfile fm \<noteq> [] \<and> fs (layoutfile fm) = None) \<and>
      candidates fs fm = pre @ (x, y, hh) # post \<and>
      (\<forall>(x', y', hh') \<in> set pre. \<not> near_boundary gd fm x' y')"
    from h have h1: "\<not> (layoutfile fm \<noteq> [] \<and> fs (layoutfile fm) = None)" by (rule conjunct1)
    from h have h2: "candidates fs fm = pre @ (x, y, hh) # post" by (rule conjunct1 [OF conjunct2])
    from h have h3: "\<forall>(x', y', hh') \<in> set pre. \<not> near_boundary gd fm x' y'"
      by (rule conjunct2 [OF conjunct2])
    from all [OF h1 h2 h3]
    show "case Windfarm_create fs gd fm of (err, fm') \<Rightarrow>
         length pre < length (turbines fm') \<and>
         xpos (turbines fm' ! length pre) = x \<and>
         ypos (turbines fm' ! length pre) = y \<and>
         ((\<forall>(x', y', hh') \<in> set post. \<not> near_boundary gd fm x' y') \<longrightarrow> err = None)" .
  qed
qed

theorem tangent_accepted_witness:
  "1 / 2 - 0.5 * farm_diam F0 = 0 \<and> 1 / 2 + 0.5 * farm_diam F0 = ysize G0 \<and>
   1 / 2 + 0.5 * farm_diam F0 \<le> xsize G0 \<and>
   candidates FS0 F0 = [] @ (1 / 2, 1 / 2, - 1) # [(3 / 2, 1 / 2, - 1)] \<and>
   fst (add_turb G0 F0 (1 / 2, 1 / 2, - 1)) = None \<and>
   fst (Windfarm_create FS0 G0 F0) = None \<and>
   xpos (turbines (snd (Windfarm_create FS0 G0 F0)) ! 0) = 1 / 2 \<and>
   ypos (turbines (snd (Windfarm_create FS0 G0 F0)) ! 0) = 1 / 2"
proof -
  have h1: "1 / 2 - 0.5 * farm_diam F0 = 0 \<or> 1 / 2 + 0.5 * farm_diam F0 = xsize G0 \<or>
            1 / 2 - 0.5 * farm_diam F0 = 0 \<or> 1 / 2 + 0.5 * farm_diam F0 = ysize G0"
    by (simp add: F_sel)
  have h2: "0 \<le> 1 / 2 - 0.5 * farm_diam F0" by (simp add: F_sel)
  have h3: "1 / 2 + 0.5 * farm_diam F0 \<le> xsize G0" by (simp add: F_sel G0_sel)
  have h5: "1 / 2 + 0.5 * farm_diam F0 \<le> ysize G0" by (simp add: F_sel G0_sel)
  have c: "candidates FS0 F0 = [] @ (1 / 2, 1 / 2, - 1) # [(3 / 2, 1 / 2, - 1)]"
    by (simp add: candidates_def F_sel cands_F0)
  have o: "\<not> (layoutfile F0 \<noteq> [] \<and> FS0 (layoutfile F0) = None)" by (simp add: F_sel)
  have p: "\<forall>(x', y', hh') \<in> set ([] :: (real \<times> real \<times> real) list).
             \<not> near_boundary G0 F0 x' y'" by simp
  have q: "\<forall>(x', y', hh') \<in> set [(3 / 2, 1 / 2, - 1 :: real)]. \<not> near_boundary G0 F0 x' y'"
    using near_F0 by simp
  obtain err fm' where w: "Windfarm_create FS0 G0 F0 = (err, fm')"
    by (cases "Windfarm_create FS0 G0 F0") auto
  note t = tangent_accepted [OF h1 h2 h3 h2 h5,
      where hh = "- 1" and fs = FS0 and pre = "[]" and post = "[(3 / 2, 1 / 2, - 1)]",
      unfolded w prod.case]
  have a: "fst (add_turb G0 F0 (1 / 2, 1 / 2, - 1)) = None"
    using t [THEN conjunct1] by (elim exE conjE) simp
  have b: "length ([] :: (real \<times> real \<times> real) list) < length (turbines fm') \<and>
         xpos (turbines fm' ! length ([] :: (real \<times> real \<times> real) list)) = 1 / 2 \<and>
         ypos (turbines fm' ! length ([] :: (real \<times> real \<times> real) list)) = 1 / 2 \<and>
         ((\<forall>(x', y', hh') \<in> set [(3 / 2, 1 / 2, - 1 :: real)].
             \<not> near_boundary G0 F0 x' y') \<longrightarrow> err = None)"
    by (rule t [THEN conjunct2, THEN mp, OF conjI [OF o conjI [OF c p]]])
  have e: "err = None"
    by (rule b [THEN conjunct2, THEN conjunct2, THEN conjunct2, THEN mp, OF q])
  have x0: "xpos (turbines fm' ! 0) = 1 / 2" "ypos (turbines fm' ! 0) = 1 / 2"
    using b by simp_all
  have g1: "1 / 2 - 0.5 * farm_diam F0 = 0" "1 / 2 + 0.5 * farm_diam F0 = ysize G0"
    by (simp_all add: F_sel G0_sel)
  show ?thesis using g1 h3 c a e x0 by (simp only: w fst_conv snd_conv simp_thms)
qed

end
